theory Spec2Isabelle
  imports Complex_Main "HOL-Library.Multiset"
begin

section \<open>JavaScript numbers\<close>

text \<open>
  The scorer of \<^verbatim>\<open>docs/game.js\<close> divides, multiplies and rounds numbers. Its operands
  are integers (option scores, response times, list lengths), so finite values are
  modelled as exact rationals; the three non-finite values of a JavaScript number are
  kept apart, because \<^verbatim>\<open>0 / 0\<close> is \<^verbatim>\<open>NaN\<close> and not an exception. At the magnitudes
  of this program the rounding error of a double is far below the margin of
  \<^verbatim>\<open>Math.round\<close>, which is why exact arithmetic stands for it.
\<close>

datatype jsnum = Fin rat | NaN | PosInfinity | NegInfinity

definition js_div :: "rat \<Rightarrow> rat \<Rightarrow> jsnum" where
  \<comment> \<open>\<^verbatim>\<open>a / b\<close> on finite operands; a zero divisor here is always a list length, so \<^verbatim>\<open>+0\<close>.\<close>
  "js_div a b =
     (if b \<noteq> 0 then Fin (a / b)
      else if a = 0 then NaN
      else if 0 < a then PosInfinity else NegInfinity)"

fun js_times :: "jsnum \<Rightarrow> rat \<Rightarrow> jsnum" where
  \<comment> \<open>\<^verbatim>\<open>x * c\<close> for a finite right operand \<open>c\<close>.\<close>
  "js_times (Fin x) c = Fin (x * c)"
| "js_times NaN c = NaN"
| "js_times PosInfinity c = (if 0 < c then PosInfinity else if c < 0 then NegInfinity else NaN)"
| "js_times NegInfinity c = (if 0 < c then NegInfinity else if c < 0 then PosInfinity else NaN)"

fun Math_round :: "jsnum \<Rightarrow> jsnum" where
  \<comment> \<open>\<^verbatim>\<open>Math.round\<close>: the nearest integer, halves towards \<open>+\<infinity>\<close>; non-finite values unchanged.\<close>
  "Math_round (Fin x) = Fin (of_int \<lfloor>x + 1 / 2\<rfloor>)"
| "Math_round v = v"

fun js_ge :: "jsnum \<Rightarrow> rat \<Rightarrow> bool" where
  \<comment> \<open>\<^verbatim>\<open>x >= c\<close>; every comparison with \<^verbatim>\<open>NaN\<close> is false.\<close>
  "js_ge (Fin x) c = (c \<le> x)"
| "js_ge NaN c = False"
| "js_ge PosInfinity c = True"
| "js_ge NegInfinity c = False"

section \<open>The scenario catalog (\<^verbatim>\<open>initializeScenarios\<close>)\<close>

text \<open>
  Each scenario carries three options; the prose fields (title, context, description,
  question, option text, legal reference) play no part in scoring and are left out.
  Theory text is ASCII, so the accented letters of the Spanish strings below and in the
  scorer are written without their accents.
\<close>

record scenario_option =
  opt_type :: string
  opt_score :: int
  opt_cultural_flags :: "string list"

record scenario =
  scn_id :: int
  options :: "scenario_option list"

definition mk_option :: "string \<Rightarrow> int \<Rightarrow> string list \<Rightarrow> scenario_option" where
  "mk_option t s fl = \<lparr>opt_type = t, opt_score = s, opt_cultural_flags = fl\<rparr>"

definition scenarios :: "scenario list" where
  "scenarios =
   [\<lparr>scn_id = 1, options =
      [mk_option ''risky'' 0 [''acceptance_of_gifts'', ''relationship_priority'', ''financial_pressure''],
       mk_option ''ethical'' 10 [''ethical_clarity'', ''policy_adherence'', ''alternative_solution''],
       mk_option ''consultation'' 7 [''consultation_pattern'', ''hierarchy_respect'', ''legal_awareness'']]\<rparr>,
    \<lparr>scn_id = 2, options =
      [mk_option ''risky'' 2 [''information_advantage'', ''relationship_leverage'', ''competitive_edge''],
       mk_option ''ethical'' 10 [''integrity_priority'', ''compliance_reporting'', ''risk_aversion''],
       mk_option ''consultation'' 8 [''boundary_setting'', ''relationship_care'', ''mutual_protection'']]\<rparr>,
    \<lparr>scn_id = 3, options =
      [mk_option ''risky'' 1 [''family_loyalty'', ''cost_priority'', ''informal_process''],
       mk_option ''ethical'' 10 [''process_fairness'', ''professional_boundaries'', ''transparency''],
       mk_option ''consultation'' 6 [''evaluation_process'', ''hierarchical_consultation'', ''comparative_analysis'']]\<rparr>,
    \<lparr>scn_id = 4, options =
      [mk_option ''risky'' 0 [''team_loyalty'', ''short_term_thinking'', ''authority_deference''],
       mk_option ''ethical'' 10 [''protocol_adherence'', ''independence_maintenance'', ''accountability''],
       mk_option ''consultation'' 7 [''escalation_opportunity'', ''relationship_preservation'', ''time_bound_solution'']]\<rparr>,
    \<lparr>scn_id = 5, options =
      [mk_option ''risky'' 2 [''cultural_courtesy'', ''relationship_maintenance'', ''seasonal_normalization''],
       mk_option ''ethical'' 10 [''policy_consistency'', ''ethical_alternative'', ''transparency''],
       mk_option ''consultation'' 8 [''immediate_reporting'', ''guidance_seeking'', ''documentation'']]\<rparr>,
    \<lparr>scn_id = 6, options =
      [mk_option ''risky'' 1 [''results_pressure'', ''technical_justification'', ''investor_pressure''],
       mk_option ''ethical'' 10 [''professional_standards'', ''legal_compliance'', ''integrity_priority''],
       mk_option ''consultation'' 7 [''technical_consultation'', ''external_validation'', ''collaborative_solution'']]\<rparr>,
    \<lparr>scn_id = 7, options =
      [mk_option ''risky'' 0 [''efficiency_priority'', ''influence_leverage'', ''expedited_process''],
       mk_option ''ethical'' 10 [''process_integrity'', ''transparency'', ''long_term_perspective''],
       mk_option ''consultation'' 8 [''formal_process'', ''due_diligence'', ''documentation'']]\<rparr>,
    \<lparr>scn_id = 8, options =
      [mk_option ''risky'' 3 [''colleague_favor'', ''information_sharing'', ''relationship_priority''],
       mk_option ''ethical'' 10 [''confidentiality_respect'', ''formal_channels'', ''professional_boundaries''],
       mk_option ''consultation'' 7 [''appropriate_guidance'', ''supervision_involvement'', ''process_redirect'']]\<rparr>,
    \<lparr>scn_id = 9, options =
      [mk_option ''risky'' 2 [''cost_priority'', ''responsibility_limitation'', ''business_focus''],
       mk_option ''ethical'' 10 [''social_responsibility'', ''ethical_sourcing'', ''standards_priority''],
       mk_option ''consultation'' 8 [''verification_requirement'', ''improvement_opportunity'', ''conditional_relationship'']]\<rparr>,
    \<lparr>scn_id = 10, options =
      [mk_option ''risky'' 0 [''family_benefit'', ''subtle_communication'', ''insider_advantage''],
       mk_option ''ethical'' 10 [''conflict_avoidance'', ''professional_ethics'', ''independent_advice''],
       mk_option ''consultation'' 6 [''policy_verification'', ''formal_consultation'', ''guidance_seeking'']]\<rparr>]"

section \<open>Answers and the session runner's three ways of recording one\<close>

record answer =
  scenario_id :: int
  selected_option :: int
  option_type :: string
  score :: int
  cultural_flags :: "string list option"
  time_taken :: int
  timestamp :: int

text \<open>
  \<^verbatim>\<open>cultural_flags\<close> is optional because the scorer reads it as
  \<^verbatim>\<open>a.cultural_flags || []\<close>. The scenario title copied into an answer is prose and is
  left out. \<open>timeLeft\<close> is the countdown value and \<open>now\<close> the clock at the call.
\<close>

definition selectOption :: "scenario \<Rightarrow> scenario_option \<Rightarrow> int \<Rightarrow> int \<Rightarrow> int \<Rightarrow> answer" where
  "selectOption sc opt optionIndex timeLeft now =
     \<lparr>scenario_id = scn_id sc, selected_option = optionIndex, option_type = opt_type opt,
      score = opt_score opt, cultural_flags = Some (opt_cultural_flags opt),
      time_taken = 30 - timeLeft, timestamp = now\<rparr>"

definition skipScenario :: "scenario \<Rightarrow> int \<Rightarrow> answer" where
  "skipScenario sc now =
     \<lparr>scenario_id = scn_id sc, selected_option = - 1, option_type = ''skipped'', score = 0,
      cultural_flags = Some [''time_pressure'', ''avoidance''], time_taken = 30, timestamp = now\<rparr>"

definition timeExpired :: "scenario \<Rightarrow> int \<Rightarrow> answer" where
  "timeExpired sc now =
     \<lparr>scenario_id = scn_id sc, selected_option = - 1, option_type = ''timeout'', score = 0,
      cultural_flags = Some [''time_pressure'', ''indecision''], time_taken = 30, timestamp = now\<rparr>"

section \<open>The scorer (\<^verbatim>\<open>calculateResults\<close>, \<^verbatim>\<open>analyzeCulturalPatterns\<close>)\<close>

text \<open>
  An insight's description is a template literal. The three canned descriptions are one
  literal piece; the consultation insight splices the value of
  \<^verbatim>\<open>15 + Math.random() * 20\<close> between two pieces. The pieces are kept apart, so that
  the model does not depend on how a number is printed: two numbers print alike only
  when they are equal.
\<close>

datatype piece = Lit string | Val rat

record insight =
  title :: string
  description :: "piece list"

definition count_flags :: "string list \<Rightarrow> (string \<rightharpoonup> nat)" where
  \<comment> \<open>\<^verbatim>\<open>flags.forEach(flag => flagCounts[flag] = (flagCounts[flag] || 0) + 1)\<close>\<close>
  "count_flags flags =
     fold (\<lambda>flag flagCounts.
             flagCounts(flag \<mapsto> (case flagCounts flag of None \<Rightarrow> 0 | Some c \<Rightarrow> c) + 1))
          flags Map.empty"

definition group_count :: "(string \<rightharpoonup> nat) \<Rightarrow> string list \<Rightarrow> nat" where
  \<comment> \<open>\<^verbatim>\<open>flagGroup.reduce((sum, flag) => sum + (flagCounts[flag] || 0), 0)\<close>\<close>
  "group_count flagCounts flagGroup =
     foldl (\<lambda>sum flag. sum + (case flagCounts flag of None \<Rightarrow> 0 | Some c \<Rightarrow> c)) 0 flagGroup"

definition consultationFlags :: "string list" where
  "consultationFlags = [''consultation_pattern'', ''hierarchy_respect'', ''guidance_seeking'']"

definition riskFlags :: "string list" where
  "riskFlags = [''risk_aversion'', ''policy_adherence'', ''protocol_adherence'']"

definition relationshipFlags :: "string list" where
  "relationshipFlags = [''relationship_priority'', ''family_loyalty'', ''colleague_favor'']"

definition consultation_insight :: "rat \<Rightarrow> insight" where
  "consultation_insight rnd =
     \<lparr>title = ''Patron de Consulta Elevado'',
      description =
        [Lit ''Tu tendencia a consultar esta '', Val (15 + rnd * 20),
         Lit ''% por encima del promedio argentino. Esto refleja un perfil cauteloso y colaborativo.'']\<rparr>"

definition risk_insight :: insight where
  "risk_insight =
     \<lparr>title = ''Alta Aversion al Riesgo'',
      description =
        [Lit ''Muestras alta aversion al riesgo etico, alineado con las nuevas generaciones de profesionales argentinos post-crisis.'']\<rparr>"

definition relationship_insight :: insight where
  "relationship_insight =
     \<lparr>title = ''Influencia Relacional'',
      description =
        [Lit ''Tus decisiones estan influenciadas por relaciones personales, caracteristico de la cultura empresarial argentina.'']\<rparr>"

definition default_insight :: insight where
  "default_insight =
     \<lparr>title = ''Perfil Equilibrado'',
      description =
        [Lit ''Muestras un perfil de toma de decisiones equilibrado, adaptandote al contexto especifico de cada situacion.'']\<rparr>"

text \<open>
  \<open>rnd\<close> is the value that \<^verbatim>\<open>Math.random()\<close> returns when the first rule fires. The
  counter object is only read at the nine flag names of the three groups, none of which
  is a property that a JavaScript object inherits, so a map from names to counts stands
  for it.
\<close>

definition analyzeCulturalPatterns :: "rat \<Rightarrow> string list \<Rightarrow> insight list" where
  "analyzeCulturalPatterns rnd flags =
     (let flagCounts = count_flags flags;
          insights0 = [];
          consultationCount = group_count flagCounts consultationFlags;
          insights1 = (if 3 \<le> consultationCount then insights0 @ [consultation_insight rnd] else insights0);
          riskCount = group_count flagCounts riskFlags;
          insights2 = (if 2 \<le> riskCount then insights1 @ [risk_insight] else insights1);
          relationshipCount = group_count flagCounts relationshipFlags;
          insights3 = (if 2 \<le> relationshipCount then insights2 @ [relationship_insight] else insights2)
      in if length insights3 = 0 then insights3 @ [default_insight] else insights3)"

record user_profile =
  sector :: string
  position :: string
  experience :: string
  region :: string
  profile_timestamp :: int
  session_id :: string

record game =
  answers :: "answer list"
  userProfile :: user_profile
  gameStartTime :: int

record decision_types =
  ethical :: nat
  consultation :: nat
  risky :: nat
  skipped :: nat
  timeout :: nat

record result =
  total_score :: int
  percentage :: jsnum
  category :: string
  result_description :: string
  result_decision_types :: decision_types
  cultural_analysis :: "insight list"
  avg_response_time :: jsnum
  game_duration :: int
  result_answers :: "answer list"
  result_user_profile :: user_profile

definition flatMap_flags :: "answer list \<Rightarrow> string list" where
  \<comment> \<open>\<^verbatim>\<open>answers.flatMap(a => a.cultural_flags || [])\<close>\<close>
  "flatMap_flags as = concat (map (\<lambda>a. case cultural_flags a of None \<Rightarrow> [] | Some fl \<Rightarrow> fl) as)"

definition count_type :: "answer list \<Rightarrow> string \<Rightarrow> nat" where
  \<comment> \<open>\<^verbatim>\<open>answers.filter(a => a.option_type === t).length\<close>\<close>
  "count_type as t = length (filter (\<lambda>a. option_type a = t) as)"

definition category_of :: "jsnum \<Rightarrow> string \<times> string" where
  \<comment> \<open>the \<^verbatim>\<open>if / else if\<close> chain of \<^verbatim>\<open>calculateResults\<close>: category and description\<close>
  "category_of pct =
     (if js_ge pct 85 then
        (''Etico Ejemplar'',
         ''Tienes un perfil etico excepcional con decisiones consistentemente integras.'')
      else if js_ge pct 70 then
        (''Etico Solido'',
         ''Muestras un perfil etico solido con tendencia a tomar decisiones responsables.'')
      else if js_ge pct 55 then
        (''Perfil Mixto'',
         ''Tu perfil muestra flexibilidad etica con tendencia a evaluar contextos especificos.'')
      else if js_ge pct 40 then
        (''Perfil Pragmatico'',
         ''Priorizas resultados practicos, con espacio para fortalecer consideraciones eticas.'')
      else
        (''Perfil de Alto Riesgo'',
         ''Tu perfil sugiere alta tolerancia al riesgo etico. Recomendamos formacion en compliance.''))"

text \<open>
  \<open>now\<close> is the clock read by \<^verbatim>\<open>Date.now()\<close> and \<open>rnd\<close> the draw of
  \<^verbatim>\<open>Math.random()\<close>; both are inputs of the model because they are inputs of the code.
\<close>

definition calculateResults :: "game \<Rightarrow> int \<Rightarrow> rat \<Rightarrow> result" where
  "calculateResults this now rnd =
     (let totalScore = foldl (\<lambda>sum a. sum + score a) 0 (answers this);
          maxPossibleScore = int (length scenarios) * 10;
          pct = Math_round (js_times (js_div (of_int totalScore) (of_int maxPossibleScore)) 100);
          decisionTypes =
            \<lparr>ethical = count_type (answers this) ''ethical'',
             consultation = count_type (answers this) ''consultation'',
             risky = count_type (answers this) ''risky'',
             skipped = count_type (answers this) ''skipped'',
             timeout = count_type (answers this) ''timeout''\<rparr>;
          culturalFlags = flatMap_flags (answers this);
          culturalAnalysis = analyzeCulturalPatterns rnd culturalFlags;
          avgResponseTime =
            js_div (of_int (foldl (\<lambda>sum a. sum + time_taken a) 0
                              (filter (\<lambda>a. 0 < time_taken a) (answers this))))
                   (of_nat (length (answers this)))
      in \<lparr>total_score = totalScore,
          percentage = pct,
          category = fst (category_of pct),
          result_description = snd (category_of pct),
          result_decision_types = decisionTypes,
          cultural_analysis = culturalAnalysis,
          avg_response_time = Math_round avgResponseTime,
          game_duration = now - gameStartTime this,
          result_answers = answers this,
          result_user_profile = userProfile this\<rparr>)"

subsection \<open>Vocabulary of the specification and sample sessions\<close>

definition occurrences :: "string list \<Rightarrow> string list \<Rightarrow> nat" where
  \<comment> \<open>The specification's "summed count of flags in a group": how many of the flattened
      flags belong to the group.\<close>
  "occurrences flagGroup flags = length (filter (\<lambda>f. f \<in> set flagGroup) flags)"


definition consultation_game :: game where
  \<comment> \<open>a session that picks the third (consultation) option of every scenario after 10 seconds\<close>
  "consultation_game =
     \<lparr>answers = map (\<lambda>sc. selectOption sc (options sc ! 2) 2 20 0) scenarios,
      userProfile = \<lparr>sector = ''not_specified'', position = ''not_specified'',
        experience = ''not_specified'', region = ''not_specified'', profile_timestamp = 0,
        session_id = ''flai_0_abc''\<rparr>,
      gameStartTime = 0\<rparr>"

definition skipped_game :: game where
  \<comment> \<open>a session that skips every scenario\<close>
  "skipped_game = consultation_game\<lparr>answers := map (\<lambda>sc. skipScenario sc 0) scenarios\<rparr>"

definition short_game :: game where
  \<comment> \<open>two answers only, both the ethical option; the first is given at once (\<open>timeLeft = 30\<close>)\<close>
  "short_game =
     consultation_game\<lparr>answers :=
       [selectOption (scenarios ! 0) (options (scenarios ! 0) ! 1) 1 30 0,
        selectOption (scenarios ! 1) (options (scenarios ! 1) ! 1) 1 20 0]\<rparr>"


section \<open>The local leaderboard (\<^verbatim>\<open>docs/leaderboard.js\<close> and \<^verbatim>\<open>saveGameData\<close>)\<close>

text \<open>
  Both \<^verbatim>\<open>FLAILeaderboard\<close> and \<^verbatim>\<open>FLAISimulator.saveGameData\<close> keep a JSON array under
  the key \<^verbatim>\<open>flai_leaderboard\<close>. This part models the array once it is parsed and
  well-typed: an entry has a numeric score and timestamp, as every entry written by the
  program has. Entries written by \<^verbatim>\<open>saveGameData\<close> carry no id, name or verified flag,
  hence the optional fields. The \<^verbatim>\<open>session_data\<close> of an entry is carried along and never
  read by the aggregator; it is left out. On such a store \<^verbatim>\<open>getLeaderboardData()\<close> and
  \<^verbatim>\<open>getAnalytics()\<close> return the two fields of the record below; what they return for a
  stored string that does not parse is the subject of the storage model further down.
  A write to the store is taken to succeed (the quota error that \<^verbatim>\<open>setItem\<close> may
  raise is caught and logged by the code).
\<close>

record entry =
  entry_id :: "string option"
  entry_name :: "string option"
  entry_score :: int
  entry_category :: string
  entry_sector :: string
  entry_position :: string
  entry_region :: string
  entry_timestamp :: int
  entry_verified :: "bool option"

record score_ranges =
  range_90_100 :: nat
  range_80_89 :: nat
  range_70_79 :: nat
  range_60_69 :: nat
  range_50_59 :: nat
  range_0_49 :: nat

record analytics =
  total_players :: nat
  average_score :: jsnum
  sector_distribution :: "string \<rightharpoonup> nat"
  region_distribution :: "string \<rightharpoonup> nat"
  score_distribution :: score_ranges
  last_updated :: int

record storage =
  flai_leaderboard :: "entry list"
  flai_analytics :: "analytics option"

subsection \<open>\<^verbatim>\<open>Array.prototype.sort\<close> with a comparator\<close>

text \<open>
  The sort is stable, and a comparator result of zero or less keeps the earlier element
  first. For a comparator that is a consistent ordering, which both comparators below are
  on integers, the result is the one stable sorted arrangement whatever algorithm the
  engine runs; insertion from the right computes it.
\<close>

fun insert_by :: "('a \<Rightarrow> 'a \<Rightarrow> int) \<Rightarrow> 'a \<Rightarrow> 'a list \<Rightarrow> 'a list" where
  "insert_by cmp x [] = [x]"
| "insert_by cmp x (y # ys) = (if cmp x y \<le> 0 then x # y # ys else y # insert_by cmp x ys)"

definition js_sort :: "('a \<Rightarrow> 'a \<Rightarrow> int) \<Rightarrow> 'a list \<Rightarrow> 'a list" where
  "js_sort cmp xs = foldr (insert_by cmp) xs []"

definition cmp_addEntry :: "entry \<Rightarrow> entry \<Rightarrow> int" where
  \<comment> \<open>\<^verbatim>\<open>(a, b) => { if (b.score !== a.score) return b.score - a.score; return b.timestamp - a.timestamp; }\<close>\<close>
  "cmp_addEntry a b =
     (if entry_score b \<noteq> entry_score a then entry_score b - entry_score a
      else entry_timestamp b - entry_timestamp a)"

definition cmp_saveGameData :: "entry \<Rightarrow> entry \<Rightarrow> int" where
  \<comment> \<open>\<^verbatim>\<open>(a, b) => b.score - a.score\<close>\<close>
  "cmp_saveGameData a b = entry_score b - entry_score a"

subsection \<open>Analytics written with the leaderboard\<close>

definition calculateAverageScore :: "entry list \<Rightarrow> jsnum" where
  "calculateAverageScore data =
     (if length data = 0 then Fin 0
      else let totalScore = foldl (\<lambda>sum e. sum + entry_score e) 0 data
           in Math_round (js_div (of_int totalScore) (of_nat (length data))))"

text \<open>
  The three distributions count entries per key in an object; the keys are taken not to
  be names that an object inherits (\<^verbatim>\<open>constructor\<close>, \<^verbatim>\<open>toString\<close>, ...).
\<close>

definition count_by :: "(entry \<Rightarrow> 'k) \<Rightarrow> entry list \<Rightarrow> ('k \<rightharpoonup> nat)" where
  \<comment> \<open>\<^verbatim>\<open>data.forEach(entry => distribution[key] = (distribution[key] || 0) + 1)\<close>\<close>
  "count_by key data =
     fold (\<lambda>e distribution.
             distribution(key e \<mapsto> (case distribution (key e) of None \<Rightarrow> 0 | Some c \<Rightarrow> c) + 1))
          data Map.empty"

definition calculateSectorDistribution :: "entry list \<Rightarrow> (string \<rightharpoonup> nat)" where
  "calculateSectorDistribution data = count_by entry_sector data"

definition calculateRegionDistribution :: "entry list \<Rightarrow> (string \<rightharpoonup> nat)" where
  "calculateRegionDistribution data = count_by entry_region data"

definition calculatePositionDistribution :: "entry list \<Rightarrow> (string \<rightharpoonup> nat)" where
  "calculatePositionDistribution data = count_by entry_position data"

definition bump_range :: "entry \<Rightarrow> score_ranges \<Rightarrow> score_ranges" where
  "bump_range e ranges =
     (let s = entry_score e in
      if 90 \<le> s then ranges\<lparr>range_90_100 := range_90_100 ranges + 1\<rparr>
      else if 80 \<le> s then ranges\<lparr>range_80_89 := range_80_89 ranges + 1\<rparr>
      else if 70 \<le> s then ranges\<lparr>range_70_79 := range_70_79 ranges + 1\<rparr>
      else if 60 \<le> s then ranges\<lparr>range_60_69 := range_60_69 ranges + 1\<rparr>
      else if 50 \<le> s then ranges\<lparr>range_50_59 := range_50_59 ranges + 1\<rparr>
      else ranges\<lparr>range_0_49 := range_0_49 ranges + 1\<rparr>)"

definition calculateScoreDistribution :: "entry list \<Rightarrow> score_ranges" where
  "calculateScoreDistribution data =
     fold bump_range data
       \<lparr>range_90_100 = 0, range_80_89 = 0, range_70_79 = 0, range_60_69 = 0,
        range_50_59 = 0, range_0_49 = 0\<rparr>"

definition updateAnalytics :: "entry list \<Rightarrow> int \<Rightarrow> analytics" where
  "updateAnalytics leaderboardData now =
     \<lparr>total_players = length leaderboardData,
      average_score = calculateAverageScore leaderboardData,
      sector_distribution = calculateSectorDistribution leaderboardData,
      region_distribution = calculateRegionDistribution leaderboardData,
      score_distribution = calculateScoreDistribution leaderboardData,
      last_updated = now\<rparr>"

definition saveLeaderboardData :: "entry list \<Rightarrow> int \<Rightarrow> storage \<Rightarrow> storage" where
  "saveLeaderboardData data now st =
     st\<lparr>flai_leaderboard := data, flai_analytics := Some (updateAnalytics data now)\<rparr>"

subsection \<open>\<^verbatim>\<open>addEntry\<close>\<close>

record gameData =
  gd_score :: int
  gd_category :: string
  gd_sector :: "string option"
  gd_position :: "string option"
  gd_region :: "string option"
  gd_timestamp :: "int option"

definition or_default :: "string option \<Rightarrow> string \<Rightarrow> string" where
  \<comment> \<open>\<^verbatim>\<open>x || d\<close> on a string that may be missing: the empty string is falsy too\<close>
  "or_default x d = (case x of None \<Rightarrow> d | Some s \<Rightarrow> if s = [] then d else s)"

definition maxEntries :: nat where
  "maxEntries = 100"

definition findUserPosition :: "string \<Rightarrow> storage \<Rightarrow> nat option" where
  \<comment> \<open>\<^verbatim>\<open>findIndex(entry => entry.id === entryId)\<close>, plus one; \<open>None\<close> stands for \<^verbatim>\<open>null\<close>\<close>
  "findUserPosition entryId st =
     (case find (\<lambda>p. entry_id (snd p) = Some entryId)
             (zip [0 ..< length (flai_leaderboard st)] (flai_leaderboard st)) of
        None \<Rightarrow> None
      | Some p \<Rightarrow> Some (fst p + 1))"

text \<open>
  \<open>newId\<close> and \<open>newName\<close> are what \<^verbatim>\<open>generateId()\<close> and \<^verbatim>\<open>generateAnonymousName()\<close>
  return (both draw from \<^verbatim>\<open>Math.random()\<close>), \<open>now\<close> is the clock. The result is the
  player's position and the store after the call; the refresh of the page that follows
  the save changes no stored data and is left out.
\<close>

definition addEntry :: "gameData \<Rightarrow> string \<Rightarrow> string \<Rightarrow> int \<Rightarrow> storage \<Rightarrow> nat option \<times> storage" where
  "addEntry gd newId newName now st =
     (let leaderboard = flai_leaderboard st;
          newEntry =
            \<lparr>entry_id = Some newId, entry_name = Some newName, entry_score = gd_score gd,
             entry_category = gd_category gd,
             entry_sector = or_default (gd_sector gd) ''no_especificado'',
             entry_position = or_default (gd_position gd) ''no_especificado'',
             entry_region = or_default (gd_region gd) ''no_especificado'',
             entry_timestamp = (case gd_timestamp gd of None \<Rightarrow> now | Some t \<Rightarrow> if t = 0 then now else t),
             entry_verified = Some False\<rparr>;
          sorted = js_sort cmp_addEntry (leaderboard @ [newEntry]);
          trimmedLeaderboard = take maxEntries sorted;
          st' = saveLeaderboardData trimmedLeaderboard now st
      in (findUserPosition newId st', st'))"

subsection \<open>The leaderboard update of \<^verbatim>\<open>saveGameData\<close>\<close>

text \<open>
  \<^verbatim>\<open>saveGameData\<close> pushes its own entry under the same key, sorts by score alone and
  keeps the first 100; it does not touch the analytics key. The score it stores is the
  result's percentage, which \<^verbatim>\<open>calculateResults\<close> always returns as a finite integer;
  \<open>None\<close> marks a percentage outside that range, which the typed store cannot hold.
\<close>

definition saveGameData :: "game \<Rightarrow> result \<Rightarrow> int \<Rightarrow> storage \<Rightarrow> storage option" where
  "saveGameData this results now st =
     (case percentage results of
        Fin p \<Rightarrow>
          (if p = of_int \<lfloor>p\<rfloor> then
             let gameData =
                   \<lparr>entry_id = None, entry_name = None, entry_score = \<lfloor>p\<rfloor>,
                    entry_category = category results, entry_sector = sector (userProfile this),
                    entry_position = position (userProfile this),
                    entry_region = region (userProfile this), entry_timestamp = now,
                    entry_verified = None\<rparr>;
                 leaderboard = flai_leaderboard st @ [gameData];
                 leaderboard = js_sort cmp_saveGameData leaderboard;
                 leaderboard = take 100 leaderboard
             in Some (st\<lparr>flai_leaderboard := leaderboard\<rparr>)
           else None)
      | _ \<Rightarrow> None)"

definition leaderboard_sorted :: "entry list \<Rightarrow> bool" where
  \<comment> \<open>The specification's order: score descending, ties broken by most recent timestamp first.\<close>
  "leaderboard_sorted es =
     sorted_wrt (\<lambda>a b. entry_score b < entry_score a \<or>
                        (entry_score a = entry_score b \<and> entry_timestamp b \<le> entry_timestamp a)) es"

definition sorted_by_score :: "entry list \<Rightarrow> bool" where
  \<comment> \<open>score descending, nothing said about ties\<close>
  "sorted_by_score es = sorted_wrt (\<lambda>a b. entry_score b \<le> entry_score a) es"

fun addEntries :: "(gameData \<times> string \<times> string \<times> int) list \<Rightarrow> storage \<Rightarrow> storage" where
  \<comment> \<open>one call of \<^verbatim>\<open>addEntry\<close> per element, in order\<close>
  "addEntries [] st = st"
| "addEntries ((gd, newId, newName, now) # calls) st =
     addEntries calls (snd (addEntry gd newId newName now st))"

definition empty_storage :: storage where
  "empty_storage = \<lparr>flai_leaderboard = [], flai_analytics = None\<rparr>"

definition tie_entry :: entry where
  \<comment> \<open>an entry of an earlier session with 72 percent, stored at time 1000\<close>
  "tie_entry =
     \<lparr>entry_id = None, entry_name = None, entry_score = 72, entry_category = ''Etico Solido'',
      entry_sector = ''not_specified'', entry_position = ''not_specified'',
      entry_region = ''not_specified'', entry_timestamp = 1000, entry_verified = None\<rparr>"

definition tie_storage :: storage where
  "tie_storage = \<lparr>flai_leaderboard = [tie_entry], flai_analytics = None\<rparr>"

subsection \<open>\<^verbatim>\<open>getComprehensiveAnalytics\<close>\<close>

record leaderboard_summary =
  total_entries :: nat
  summary_average_score :: jsnum
  top_10_average :: jsnum
  summary_score_distribution :: "score_ranges option"

record demographic_breakdown =
  by_sector :: "string \<rightharpoonup> nat"
  by_region :: "string \<rightharpoonup> nat"
  by_position :: "string \<rightharpoonup> nat"

record temporal_patterns =
  entries_by_day :: "int \<rightharpoonup> nat"
  peak_hours :: "int \<rightharpoonup> nat"

record performance_insights =
  sector_averages :: "string \<rightharpoonup> jsnum"
  region_averages :: "string \<rightharpoonup> jsnum"

record comprehensive =
  comp_summary :: leaderboard_summary
  comp_demographic :: demographic_breakdown
  comp_temporal :: temporal_patterns
  comp_performance :: performance_insights

definition getEntriesByDay :: "entry list \<Rightarrow> int \<Rightarrow> (int \<rightharpoonup> nat)" where
  \<comment> \<open>\<^verbatim>\<open>daysAgo = Math.floor((now - entry.timestamp) / (24 * 60 * 60 * 1000))\<close>\<close>
  "getEntriesByDay data now =
     count_by (\<lambda>e. (now - entry_timestamp e) div (24 * 60 * 60 * 1000)) data"

definition getPeakHours :: "(int \<Rightarrow> int) \<Rightarrow> entry list \<Rightarrow> (int \<rightharpoonup> nat)" where
  \<comment> \<open>\<open>getHours\<close> is \<^verbatim>\<open>new Date(t).getHours()\<close>, the hour of a timestamp in the local time zone\<close>
  "getPeakHours getHours data = count_by (\<lambda>e. getHours (entry_timestamp e)) data"

definition group_totals :: "(entry \<Rightarrow> string) \<Rightarrow> entry list \<Rightarrow> (string \<rightharpoonup> int \<times> nat)" where
  \<comment> \<open>the first loop of \<^verbatim>\<open>calculateSectorAverages\<close>: total and count per key\<close>
  "group_totals key data =
     fold (\<lambda>e scores.
             let cur = (case scores (key e) of None \<Rightarrow> (0, 0) | Some tc \<Rightarrow> tc)
             in scores(key e \<mapsto> (fst cur + entry_score e, snd cur + 1)))
          data Map.empty"

definition group_averages :: "(entry \<Rightarrow> string) \<Rightarrow> entry list \<Rightarrow> (string \<rightharpoonup> jsnum)" where
  \<comment> \<open>the second loop: \<^verbatim>\<open>Math.round(total / count)\<close> for every key\<close>
  "group_averages key data =
     (\<lambda>k. case group_totals key data k of
             None \<Rightarrow> None
           | Some tc \<Rightarrow> Some (Math_round (js_div (of_int (fst tc)) (of_nat (snd tc)))))"

definition calculateSectorAverages :: "entry list \<Rightarrow> (string \<rightharpoonup> jsnum)" where
  "calculateSectorAverages data = group_averages entry_sector data"

definition calculateRegionAverages :: "entry list \<Rightarrow> (string \<rightharpoonup> jsnum)" where
  "calculateRegionAverages data = group_averages entry_region data"

definition js_or_zero :: "jsnum \<Rightarrow> jsnum" where
  \<comment> \<open>\<^verbatim>\<open>x || 0\<close> on a number: zero and \<^verbatim>\<open>NaN\<close> are falsy\<close>
  "js_or_zero x = (if x = Fin 0 \<or> x = NaN then Fin 0 else x)"

definition getComprehensiveAnalytics :: "(int \<Rightarrow> int) \<Rightarrow> storage \<Rightarrow> int \<Rightarrow> comprehensive" where
  "getComprehensiveAnalytics getHours st now =
     (let leaderboard = flai_leaderboard st;
          analytics = flai_analytics st
      in \<lparr>comp_summary =
            \<lparr>total_entries = length leaderboard,
             summary_average_score =
               (case analytics of None \<Rightarrow> Fin 0 | Some a \<Rightarrow> js_or_zero (average_score a)),
             top_10_average = calculateAverageScore (take 10 leaderboard),
             summary_score_distribution = map_option score_distribution analytics\<rparr>,
          comp_demographic =
            \<lparr>by_sector = (case analytics of None \<Rightarrow> Map.empty | Some a \<Rightarrow> sector_distribution a),
             by_region = (case analytics of None \<Rightarrow> Map.empty | Some a \<Rightarrow> region_distribution a),
             by_position = calculatePositionDistribution leaderboard\<rparr>,
          comp_temporal =
            \<lparr>entries_by_day = getEntriesByDay leaderboard now,
             peak_hours = getPeakHours getHours leaderboard\<rparr>,
          comp_performance =
            \<lparr>sector_averages = calculateSectorAverages leaderboard,
             region_averages = calculateRegionAverages leaderboard\<rparr>\<rparr>)"

fun insert_desc :: "int \<Rightarrow> int list \<Rightarrow> int list" where
  \<comment> \<open>a score put into a list of scores that is sorted in descending order\<close>
  "insert_desc y [] = [y]"
| "insert_desc y (z # zs) = (if z \<le> y then y # z # zs else z # insert_desc y zs)"

definition before_addEntry :: "entry \<Rightarrow> entry \<Rightarrow> bool" where
  \<comment> \<open>\<open>a\<close> may stand before \<open>b\<close> in the specification's order\<close>
  "before_addEntry a b =
     (entry_score b < entry_score a \<or>
      (entry_score a = entry_score b \<and> entry_timestamp b \<le> entry_timestamp a))"

section \<open>Stored strings and parsed values\<close>

text \<open>
  The browser store maps a key to a string; what the program reads back is whatever
  \<^verbatim>\<open>JSON.parse\<close> makes of that string. This part models parsed values as they are,
  untyped, so that a stored string of the wrong shape can be told apart from one that
  does not parse. Numbers in JSON text are finite, hence rationals.
\<close>

datatype jsval =
    JUndefined
  | JNull
  | JBool bool
  | JNum rat
  | JStr string
  | JArr "jsval list"
  | JObj "(string \<times> jsval) list"

datatype js_error = SyntaxError | TypeError | RangeError

text \<open>
  What the platform provides and the repository only calls: the JSON parser (\<open>None\<close>
  when it throws \<^verbatim>\<open>SyntaxError\<close>) and printer, \<^verbatim>\<open>new Date(v).toISOString()\<close> (\<open>None\<close>
  when the date is invalid and the call throws \<^verbatim>\<open>RangeError\<close>), the conversions of a
  number, array or object to a string and of a string, array or object to a number, and
  the message text of an error. They are parameters of the model; the theorems hold for
  every platform, or say which facts about the platform they use.
\<close>

record platform =
  JSON_parse :: "string \<Rightarrow> jsval option"
  JSON_stringify :: "jsval \<Rightarrow> string"
  toISOString :: "jsval \<Rightarrow> string option"
  ToString :: "jsval \<Rightarrow> string"
  ToNumber :: "jsval \<Rightarrow> jsnum"
  error_message :: "js_error \<Rightarrow> string"

type_synonym localStorage = "string \<Rightarrow> string option"

definition js_bind :: "js_error + 'a \<Rightarrow> ('a \<Rightarrow> js_error + 'b) \<Rightarrow> js_error + 'b" where
  \<comment> \<open>sequencing: an exception of the first step skips the rest\<close>
  "js_bind x f = (case x of Inl e \<Rightarrow> Inl e | Inr v \<Rightarrow> f v)"

fun get_prop :: "jsval \<Rightarrow> string \<Rightarrow> js_error + jsval" where
  \<comment> \<open>\<^verbatim>\<open>v.k\<close> for a data field \<open>k\<close> or \<^verbatim>\<open>length\<close>; reading a property of \<^verbatim>\<open>undefined\<close> or
      \<^verbatim>\<open>null\<close> throws. A parsed object holds each key once.\<close>
  "get_prop JUndefined k = Inl TypeError"
| "get_prop JNull k = Inl TypeError"
| "get_prop (JObj kvs) k = Inr (case map_of kvs k of None \<Rightarrow> JUndefined | Some v \<Rightarrow> v)"
| "get_prop (JArr xs) k = Inr (if k = ''length'' then JNum (of_nat (length xs)) else JUndefined)"
| "get_prop (JStr s) k = Inr (if k = ''length'' then JNum (of_nat (length s)) else JUndefined)"
| "get_prop (JBool b) k = Inr JUndefined"
| "get_prop (JNum n) k = Inr JUndefined"

fun truthy :: "jsval \<Rightarrow> bool" where
  "truthy JUndefined = False"
| "truthy JNull = False"
| "truthy (JBool b) = b"
| "truthy (JNum n) = (n \<noteq> 0)"
| "truthy (JStr s) = (s \<noteq> [])"
| "truthy (JArr xs) = True"
| "truthy (JObj kvs) = True"

definition js_or :: "jsval \<Rightarrow> jsval \<Rightarrow> jsval" where
  \<comment> \<open>\<^verbatim>\<open>x || y\<close> on values already computed\<close>
  "js_or x y = (if truthy x then x else y)"

text \<open>
  Converting a parsed value to a string or a number can throw. An object is converted
  through its \<^verbatim>\<open>toString\<close> and \<^verbatim>\<open>valueOf\<close>; a parsed object whose own key \<^verbatim>\<open>toString\<close>
  hides the inherited method has none that is callable and returns a primitive, and the
  conversion throws \<^verbatim>\<open>TypeError\<close>. An array is converted by joining its elements, each
  converted in turn except \<^verbatim>\<open>undefined\<close> and \<^verbatim>\<open>null\<close>. Every other parsed value converts.
\<close>

fun to_string_throws :: "jsval \<Rightarrow> bool" where
  "to_string_throws (JObj kvs) = (map_of kvs ''toString'' \<noteq> None)"
| "to_string_throws (JArr xs) = list_ex to_string_throws xs"
| "to_string_throws v = False"

definition to_string :: "platform \<Rightarrow> jsval \<Rightarrow> string" where
  \<comment> \<open>\<^verbatim>\<open>String(v)\<close> for a value whose conversion does not throw\<close>
  "to_string pf v =
     (case v of
        JUndefined \<Rightarrow> ''undefined''
      | JNull \<Rightarrow> ''null''
      | JBool b \<Rightarrow> (if b then ''true'' else ''false'')
      | JStr s \<Rightarrow> s
      | _ \<Rightarrow> ToString pf v)"

definition template_string :: "platform \<Rightarrow> jsval \<Rightarrow> js_error + string" where
  \<comment> \<open>\<^verbatim>\<open>${v}\<close> in a template literal\<close>
  "template_string pf v = (if to_string_throws v then Inl TypeError else Inr (to_string pf v))"

definition date_iso :: "platform \<Rightarrow> jsval \<Rightarrow> js_error + jsval" where
  \<comment> \<open>\<^verbatim>\<open>new Date(v).toISOString()\<close>: the constructor converts an object or array first,
      the method throws on an invalid date\<close>
  "date_iso pf v =
     (if to_string_throws v then Inl TypeError
      else case toISOString pf v of None \<Rightarrow> Inl RangeError | Some s \<Rightarrow> Inr (JStr s))"

fun map_js :: "('a \<Rightarrow> js_error + 'b) \<Rightarrow> 'a list \<Rightarrow> js_error + 'b list" where
  \<comment> \<open>the callback of \<^verbatim>\<open>map\<close> applied from left to right, stopping at the first exception\<close>
  "map_js f [] = Inr []"
| "map_js f (x # xs) = js_bind (f x) (\<lambda>y. js_bind (map_js f xs) (\<lambda>ys. Inr (y # ys)))"

definition array_map :: "(jsval \<Rightarrow> js_error + jsval) \<Rightarrow> jsval \<Rightarrow> js_error + jsval list" where
  \<comment> \<open>\<^verbatim>\<open>v.map(f)\<close>: only an array has the method; on anything else the call throws\<close>
  "array_map f v = (case v of JArr xs \<Rightarrow> map_js f xs | _ \<Rightarrow> Inl TypeError)"

subsection \<open>\<^verbatim>\<open>FLAILeaderboard.getLeaderboardData\<close>\<close>



subsection \<open>\<^verbatim>\<open>FLAIDataExport.getGameSessionsData\<close>\<close>

definition map_answer :: "jsval \<Rightarrow> js_error + jsval" where
  \<comment> \<open>the callback of \<^verbatim>\<open>session.answers.map\<close>\<close>
  "map_answer answer =
     js_bind (get_prop answer ''scenario_id'') (\<lambda>scenario_id.
     js_bind (get_prop answer ''option_type'') (\<lambda>option_type.
     js_bind (get_prop answer ''cultural_flags'') (\<lambda>cultural_flags.
     js_bind (get_prop answer ''time_taken'') (\<lambda>time_taken.
     js_bind (get_prop answer ''timestamp'') (\<lambda>timestamp.
     Inr (JObj [(''scenario_id'', scenario_id), (''decision_type'', option_type),
                (''cultural_flags'', cultural_flags), (''response_time'', time_taken),
                (''timestamp'', timestamp)]))))))"

definition map_session :: "jsval \<Rightarrow> js_error + jsval" where
  \<comment> \<open>the callback of \<^verbatim>\<open>researchData.map\<close>\<close>
  "map_session session =
     js_bind (get_prop session ''session_id'') (\<lambda>session_id.
     js_bind (get_prop session ''timestamp'') (\<lambda>timestamp.
     js_bind (get_prop session ''demographics'') (\<lambda>demographics.
     js_bind (get_prop session ''results'') (\<lambda>results.
     js_bind (get_prop results ''total_score'') (\<lambda>total_score.
     js_bind (get_prop results ''percentage'') (\<lambda>percentage.
     js_bind (get_prop results ''game_duration'') (\<lambda>game_duration.
     js_bind (get_prop results ''avg_response_time'') (\<lambda>avg_response_time.
     js_bind (get_prop results ''decision_types'') (\<lambda>decision_types.
     js_bind (get_prop session ''answers'') (\<lambda>answers.
     js_bind (array_map map_answer answers) (\<lambda>decisions.
     Inr (JObj [(''session_id'', session_id), (''timestamp'', timestamp),
                (''demographics'', demographics),
                (''performance'',
                  JObj [(''total_score'', total_score), (''percentage'', percentage),
                        (''completion_time'', game_duration),
                        (''avg_response_time'', avg_response_time),
                        (''decision_breakdown'', decision_types)]),
                (''decisions'', JArr decisions)]))))))))))))"

definition getItem_or :: "localStorage \<Rightarrow> string \<Rightarrow> string \<Rightarrow> string" where
  \<comment> \<open>\<^verbatim>\<open>localStorage.getItem(key) || d\<close>: a missing key and the empty string both give \<open>d\<close>\<close>
  "getItem_or ls key d = (case ls key of None \<Rightarrow> d | Some s \<Rightarrow> if s = [] then d else s)"

definition getGameSessionsData_try :: "platform \<Rightarrow> localStorage \<Rightarrow> js_error + jsval list" where
  \<comment> \<open>the body of the \<^verbatim>\<open>try\<close>: \<^verbatim>\<open>JSON.parse(localStorage.getItem(key) || '[]').map(...)\<close>\<close>
  "getGameSessionsData_try pf ls =
     (case JSON_parse pf (getItem_or ls ''flai_research_data'' ''[]'') of
        None \<Rightarrow> Inl SyntaxError
      | Some researchData \<Rightarrow> array_map map_session researchData)"

definition getGameSessionsData :: "platform \<Rightarrow> localStorage \<Rightarrow> jsval list" where
  \<comment> \<open>the \<^verbatim>\<open>catch\<close> logs the error and returns \<^verbatim>\<open>[]\<close>; the result is the list of
      elements of the array returned\<close>
  "getGameSessionsData pf ls =
     (case getGameSessionsData_try pf ls of Inl error \<Rightarrow> [] | Inr sessions \<Rightarrow> sessions)"

subsection \<open>\<^verbatim>\<open>FLAIDataExport.downloadCSV\<close>\<close>

definition csv_header :: "jsval list" where
  "csv_header =
     map JStr
       [''session_id'', ''timestamp'', ''sector'', ''position'', ''region'', ''experience'',
        ''total_score'', ''percentage'', ''completion_time'', ''avg_response_time'',
        ''ethical_decisions'', ''consultation_decisions'', ''risky_decisions'',
        ''scenario_1'', ''scenario_2'', ''scenario_3'', ''scenario_4'', ''scenario_5'',
        ''scenario_6'', ''scenario_7'', ''scenario_8'', ''scenario_9'', ''scenario_10'']"

fun find_decision :: "int \<Rightarrow> jsval list \<Rightarrow> js_error + jsval option" where
  \<comment> \<open>\<^verbatim>\<open>decisions.find(d => d.scenario_id === i)\<close>: the first match, \<open>None\<close> for \<^verbatim>\<open>undefined\<close>\<close>
  "find_decision i [] = Inr None"
| "find_decision i (d # ds) =
     js_bind (get_prop d ''scenario_id'') (\<lambda>scenario_id.
       if scenario_id = JNum (of_int i) then Inr (Some d) else find_decision i ds)"

definition scenario_cell :: "jsval \<Rightarrow> int \<Rightarrow> js_error + jsval" where
  \<comment> \<open>\<^verbatim>\<open>decision ? decision.decision_type : ''\<close>; only an array has \<^verbatim>\<open>find\<close>\<close>
  "scenario_cell decisions i =
     (case decisions of
        JArr ds \<Rightarrow>
          js_bind (find_decision i ds) (\<lambda>decision.
            case decision of
              None \<Rightarrow> Inr (JStr [])
            | Some d \<Rightarrow> if truthy d then get_prop d ''decision_type'' else Inr (JStr []))
      | _ \<Rightarrow> Inl TypeError)"

definition csv_row :: "platform \<Rightarrow> jsval \<Rightarrow> js_error + jsval list" where
  \<comment> \<open>the callback of \<^verbatim>\<open>sessions.forEach\<close>: thirteen cells, then one per scenario 1 to 10\<close>
  "csv_row pf session =
     js_bind (get_prop session ''session_id'') (\<lambda>session_id.
     js_bind (get_prop session ''timestamp'') (\<lambda>timestamp.
     js_bind (date_iso pf timestamp) (\<lambda>iso.
     js_bind (get_prop session ''demographics'') (\<lambda>demographics.
     js_bind (get_prop demographics ''sector'') (\<lambda>sector.
     js_bind (get_prop demographics ''position'') (\<lambda>position.
     js_bind (get_prop demographics ''region'') (\<lambda>region.
     js_bind (get_prop demographics ''experience'') (\<lambda>experience.
     js_bind (get_prop session ''performance'') (\<lambda>performance.
     js_bind (get_prop performance ''total_score'') (\<lambda>total_score.
     js_bind (get_prop performance ''percentage'') (\<lambda>percentage.
     js_bind (get_prop performance ''completion_time'') (\<lambda>completion_time.
     js_bind (get_prop performance ''avg_response_time'') (\<lambda>avg_response_time.
     js_bind (get_prop performance ''decision_breakdown'') (\<lambda>decision_breakdown.
     js_bind (get_prop decision_breakdown ''ethical'') (\<lambda>ethical.
     js_bind (get_prop decision_breakdown ''consultation'') (\<lambda>consultation.
     js_bind (get_prop decision_breakdown ''risky'') (\<lambda>risky.
     js_bind (get_prop session ''decisions'') (\<lambda>decisions.
     js_bind (map_js (scenario_cell decisions) [1, 2, 3, 4, 5, 6, 7, 8, 9, 10]) (\<lambda>cells.
     Inr ([session_id, iso, sector, position, region, experience, total_score, percentage,
           completion_time, avg_response_time, js_or ethical (JNum 0),
           js_or consultation (JNum 0), js_or risky (JNum 0)] @ cells))))))))))))))))))))"

definition downloadCSV_rows :: "platform \<Rightarrow> localStorage \<Rightarrow> js_error + jsval list list option" where
  \<comment> \<open>\<^verbatim>\<open>csvRows\<close>; \<open>None\<close> when there is no session: the alert, and no file\<close>
  "downloadCSV_rows pf ls =
     (let sessions = getGameSessionsData pf ls
      in if length sessions = 0 then Inr None
         else js_bind (map_js (csv_row pf) sessions) (\<lambda>rows. Inr (Some (csv_header # rows))))"

definition cell_text :: "platform \<Rightarrow> jsval \<Rightarrow> string" where
  \<comment> \<open>how \<^verbatim>\<open>Array.prototype.join\<close> prints an element: nothing for \<^verbatim>\<open>undefined\<close> and \<^verbatim>\<open>null\<close>\<close>
  "cell_text pf v = (case v of JUndefined \<Rightarrow> [] | JNull \<Rightarrow> [] | _ \<Rightarrow> to_string pf v)"

fun join_with :: "string \<Rightarrow> string list \<Rightarrow> string" where
  "join_with sep [] = []"
| "join_with sep [x] = x"
| "join_with sep (x # y # ys) = x @ sep @ join_with sep (y # ys)"

definition newline :: char where
  "newline = CHR 0x0A"

definition csvContent :: "platform \<Rightarrow> jsval list list \<Rightarrow> string" where
  \<comment> \<open>\<^verbatim>\<open>csvRows.map(row => row.join(',')).join('\n')\<close>\<close>
  "csvContent pf csvRows =
     join_with [newline] (map (\<lambda>row. join_with '','' (map (cell_text pf) row)) csvRows)"

definition downloadCSV :: "platform \<Rightarrow> localStorage \<Rightarrow> js_error + string option" where
  \<comment> \<open>the text of the file offered for download, when there is one; \<^verbatim>\<open>join\<close> throws on a
      cell that does not convert to a string\<close>
  "downloadCSV pf ls =
     js_bind (downloadCSV_rows pf ls) (\<lambda>csvRows.
       case csvRows of
         None \<Rightarrow> Inr None
       | Some rows \<Rightarrow>
           if list_ex (list_ex to_string_throws) rows then Inl TypeError
           else Inr (Some (csvContent pf rows)))"

subsection \<open>Reading the file back\<close>

fun split_on :: "char \<Rightarrow> string \<Rightarrow> string list" where
  \<comment> \<open>the fields of a line that uses \<open>c\<close> as separator and no quoting, which is the format
      written above\<close>
  "split_on c [] = [[]]"
| "split_on c (x # xs) =
     (if x = c then [] # split_on c xs
      else (case split_on c xs of [] \<Rightarrow> [[x]] | w # ws \<Rightarrow> (x # w) # ws))"

definition csv_columns :: "string \<Rightarrow> string list list" where
  "csv_columns text = map (split_on CHR '','') (split_on newline text)"

definition recorded_type :: "jsval \<Rightarrow> int \<Rightarrow> jsval" where
  \<comment> \<open>The specification's "decision type recorded in the session's original Answer for the
      scenario with that id": the \<^verbatim>\<open>option_type\<close> of the first stored answer with that
      \<^verbatim>\<open>scenario_id\<close>, the empty string when there is none.\<close>
  "recorded_type session i =
     (case get_prop session ''answers'' of
        Inr (JArr as) \<Rightarrow>
          (case find (\<lambda>a. get_prop a ''scenario_id'' = Inr (JNum (of_int i))) as of
             None \<Rightarrow> JStr []
           | Some a \<Rightarrow> (case get_prop a ''option_type'' of Inr t \<Rightarrow> t | Inl e \<Rightarrow> JUndefined))
      | _ \<Rightarrow> JUndefined)"

section \<open>The remote ingestion handler (\<^verbatim>\<open>exports.handler\<close>)\<close>

record event =
  httpMethod :: string
  body :: "string option"

text \<open>
  A response body is the JSON text of a value, or the empty string; the model keeps the
  value, without the keys whose value is \<^verbatim>\<open>undefined\<close>, which \<^verbatim>\<open>JSON.stringify\<close> leaves
  out. \<open>None\<close> is the empty string.
\<close>

record response =
  statusCode :: nat
  headers :: "(string \<times> string) list"
  response_body :: "jsval option"

record env =
  supabaseUrl :: "string option"
  supabaseKey :: "string option"

definition cors_headers :: "(string \<times> string) list" where
  "cors_headers =
     [(''Access-Control-Allow-Origin'', ''*''),
      (''Access-Control-Allow-Headers'', ''Content-Type, X-Source, X-Version''),
      (''Access-Control-Allow-Methods'', ''POST, OPTIONS''),
      (''Content-Type'', ''application/json'')]"

definition stringify_object :: "(string \<times> jsval) list \<Rightarrow> jsval option" where
  \<comment> \<open>\<^verbatim>\<open>JSON.stringify({...})\<close> of an object literal, as the value the text denotes\<close>
  "stringify_object kvs = Some (JObj (filter (\<lambda>kv. snd kv \<noteq> JUndefined) kvs))"

subsection \<open>Calls to the database client\<close>

text \<open>
  The handler awaits one call of the Supabase client per row. The database is not part of
  the repository: the model records the calls issued, and takes the outcome of the
  \<open>n\<close>-th call of an invocation, completed or thrown, from a parameter \<open>outcome\<close>, so
  that every behaviour of the client is covered. An action reads and extends the list of
  calls and either returns a value or throws.
\<close>

type_synonym db_log = "(string \<times> jsval) list"

type_synonym 'a action = "db_log \<Rightarrow> (js_error + 'a) \<times> db_log"

definition act_bind :: "'a action \<Rightarrow> ('a \<Rightarrow> 'b action) \<Rightarrow> 'b action" where
  "act_bind m f calls =
     (case m calls of (Inl e, calls') \<Rightarrow> (Inl e, calls') | (Inr v, calls') \<Rightarrow> f v calls')"

definition act_pure :: "js_error + 'a \<Rightarrow> 'a action" where
  \<comment> \<open>a step that issues no call\<close>
  "act_pure x calls = (x, calls)"

definition db_call :: "(nat \<Rightarrow> js_error option) \<Rightarrow> string \<Rightarrow> jsval \<Rightarrow> unit action" where
  \<comment> \<open>\<^verbatim>\<open>await supabase.from(table).upsert(row)\<close> or \<^verbatim>\<open>.insert(row)\<close>\<close>
  "db_call outcome table row calls =
     (case outcome (length calls) of
        None \<Rightarrow> (Inr (), calls @ [(table, row)])
      | Some e \<Rightarrow> (Inl e, calls @ [(table, row)]))"

fun for_each :: "('a \<Rightarrow> unit action) \<Rightarrow> 'a list \<Rightarrow> unit action" where
  "for_each f [] = act_pure (Inr ())"
| "for_each f (x # xs) = act_bind (f x) (\<lambda>u. for_each f xs)"

definition for_of :: "jsval \<Rightarrow> js_error + jsval list" where
  \<comment> \<open>the elements that \<^verbatim>\<open>for (const x of v)\<close> visits: of the parsed values only arrays
      and strings are iterable\<close>
  "for_of v =
     (case v of
        JArr xs \<Rightarrow> Inr xs
      | JStr s \<Rightarrow> Inr (map (\<lambda>c. JStr [c]) s)
      | _ \<Rightarrow> Inl TypeError)"

definition js_gt_zero :: "platform \<Rightarrow> jsval \<Rightarrow> js_error + bool" where
  \<comment> \<open>\<^verbatim>\<open>v > 0\<close>: the comparison converts an object or array first, which can throw\<close>
  "js_gt_zero pf v =
     (if to_string_throws v then Inl TypeError
      else Inr (case v of
                  JNum n \<Rightarrow> 0 < n
                | JUndefined \<Rightarrow> False
                | JNull \<Rightarrow> False
                | JBool b \<Rightarrow> b
                | _ \<Rightarrow> (case ToNumber pf v of Fin x \<Rightarrow> 0 < x | PosInfinity \<Rightarrow> True | _ \<Rightarrow> False)))"

definition optional_prop :: "jsval \<Rightarrow> string \<Rightarrow> jsval" where
  \<comment> \<open>\<^verbatim>\<open>v?.k\<close>\<close>
  "optional_prop v k =
     (case get_prop v k of Inl e \<Rightarrow> JUndefined | Inr x \<Rightarrow> x)"

subsection \<open>The rows written when the database is configured\<close>

definition session_row :: "platform \<Rightarrow> string \<Rightarrow> jsval \<Rightarrow> js_error + jsval" where
  "session_row pf now_iso session =
     js_bind (get_prop session ''session_id'') (\<lambda>session_id.
     js_bind (get_prop session ''timestamp'') (\<lambda>timestamp.
     js_bind (date_iso pf timestamp) (\<lambda>iso.
     js_bind (get_prop session ''demographics'') (\<lambda>demographics.
     js_bind (get_prop session ''performance'') (\<lambda>performance.
     js_bind (get_prop session ''decisions'') (\<lambda>decisions.
     Inr (JObj [(''session_id'', session_id), (''timestamp'', iso),
                (''demographics'', demographics), (''performance'', performance),
                (''decisions'', decisions), (''created_at'', JStr now_iso)])))))))"

definition share_row :: "platform \<Rightarrow> jsval \<Rightarrow> js_error + jsval" where
  "share_row pf ev =
     js_bind (get_prop ev ''session_id'') (\<lambda>session_id.
     js_bind (template_string pf session_id) (\<lambda>id_left.
     js_bind (get_prop ev ''timestamp'') (\<lambda>timestamp.
     js_bind (template_string pf timestamp) (\<lambda>id_right.
     js_bind (get_prop ev ''platform'') (\<lambda>platform.
     js_bind (get_prop ev ''context'') (\<lambda>context.
     js_bind (date_iso pf timestamp) (\<lambda>iso.
     js_bind (get_prop ev ''url'') (\<lambda>url.
     js_bind (get_prop ev ''referrer'') (\<lambda>referrer.
     Inr (JObj [(''event_id'', JStr (id_left @ ''_'' @ id_right)),
                (''type'', JStr ''share''), (''platform'', platform), (''context'', context),
                (''timestamp'', iso), (''session_id'', session_id), (''url'', url),
                (''referrer'', referrer)]))))))))))"

definition visit_row :: "platform \<Rightarrow> jsval \<Rightarrow> js_error + jsval" where
  "visit_row pf visit =
     js_bind (get_prop visit ''session_id'') (\<lambda>session_id.
     js_bind (template_string pf session_id) (\<lambda>id_left.
     js_bind (get_prop visit ''timestamp'') (\<lambda>timestamp.
     js_bind (template_string pf timestamp) (\<lambda>id_right.
     js_bind (get_prop visit ''page'') (\<lambda>page.
     js_bind (date_iso pf timestamp) (\<lambda>iso.
     js_bind (get_prop visit ''referrer'') (\<lambda>referrer.
     js_bind (get_prop visit ''user_agent'') (\<lambda>user_agent.
     Inr (JObj [(''visit_id'', JStr (id_left @ ''_'' @ id_right)),
                (''page'', page), (''timestamp'', iso), (''referrer'', referrer),
                (''user_agent'', user_agent), (''session_id'', session_id)])))))))))"

definition snapshot_row :: "platform \<Rightarrow> jsval \<Rightarrow> jsval \<Rightarrow> js_error + jsval" where
  "snapshot_row pf data inner =
     js_bind (get_prop data ''export_id'') (\<lambda>export_id.
     js_bind (get_prop data ''timestamp'') (\<lambda>timestamp.
     js_bind (date_iso pf timestamp) (\<lambda>iso.
     js_bind (get_prop data ''version'') (\<lambda>version.
     js_bind (get_prop inner ''aggregated_stats'') (\<lambda>aggregated_stats.
     js_bind (get_prop inner ''cultural_insights'') (\<lambda>cultural_insights.
     Inr (JObj [(''export_id'', export_id), (''timestamp'', iso), (''version'', version),
                (''aggregated_stats'', aggregated_stats),
                (''cultural_insights'', cultural_insights),
                (''raw_data_size'', JNum (of_nat (length (JSON_stringify pf data))))])))))))"

definition write_each ::
  "(nat \<Rightarrow> js_error option) \<Rightarrow> string \<Rightarrow> (jsval \<Rightarrow> js_error + jsval) \<Rightarrow> jsval \<Rightarrow> unit action" where
  \<comment> \<open>\<^verbatim>\<open>for (const x of v) { await supabase.from(table).upsert(row(x)) }\<close>\<close>
  "write_each outcome table row v =
     act_bind (act_pure (for_of v)) (\<lambda>xs.
       for_each (\<lambda>x. act_bind (act_pure (row x)) (db_call outcome table)) xs)"

definition write_if_nonempty ::
  "platform \<Rightarrow> (nat \<Rightarrow> js_error option) \<Rightarrow> string \<Rightarrow> (jsval \<Rightarrow> js_error + jsval) \<Rightarrow> jsval
     \<Rightarrow> unit action" where
  \<comment> \<open>\<^verbatim>\<open>if (v.length > 0) { for (const x of v) ... }\<close>\<close>
  "write_if_nonempty pf outcome table row v =
     act_bind (act_pure (get_prop v ''length'')) (\<lambda>len.
     act_bind (act_pure (js_gt_zero pf len)) (\<lambda>nonempty.
       if nonempty then write_each outcome table row v else act_pure (Inr ())))"

text \<open>
  \<open>connect\<close> is the outcome of \<^verbatim>\<open>createClient(supabaseUrl, supabaseKey)\<close>, which belongs to
  the client library: \<open>None\<close> when it returns a client.
\<close>

definition persist ::
  "platform \<Rightarrow> js_error option \<Rightarrow> (nat \<Rightarrow> js_error option) \<Rightarrow> string \<Rightarrow> jsval \<Rightarrow> jsval
     \<Rightarrow> unit action" where
  \<comment> \<open>the block guarded by \<^verbatim>\<open>if (supabaseUrl && supabaseKey)\<close>; \<open>inner\<close> is \<^verbatim>\<open>data.data\<close>\<close>
  "persist pf connect outcome now_iso data inner =
     act_bind (act_pure (case connect of None \<Rightarrow> Inr () | Some e \<Rightarrow> Inl e)) (\<lambda>supabase.
     act_bind (act_pure (get_prop inner ''game_sessions'')) (\<lambda>game_sessions.
     act_bind
       (if truthy game_sessions then
          write_if_nonempty pf outcome ''game_sessions'' (session_row pf now_iso) game_sessions
        else act_pure (Inr ())) (\<lambda>u.
     act_bind (act_pure (get_prop inner ''viral_analytics'')) (\<lambda>viral_analytics.
     act_bind
       (if truthy viral_analytics then
          act_bind (act_pure (get_prop viral_analytics ''share_events'')) (\<lambda>share_events.
          act_bind (act_pure (get_prop viral_analytics ''page_visits'')) (\<lambda>page_visits.
          act_bind (act_pure (get_prop viral_analytics ''referrals'')) (\<lambda>referrals.
          act_bind (write_if_nonempty pf outcome ''viral_events'' (share_row pf) share_events) (\<lambda>u.
          write_if_nonempty pf outcome ''page_visits'' (visit_row pf) page_visits))))
        else act_pure (Inr ())) (\<lambda>u.
     act_bind (act_pure (snapshot_row pf data inner)) (db_call outcome ''data_snapshots''))))))"

subsection \<open>The handler\<close>

definition is_set :: "string option \<Rightarrow> bool" where
  \<comment> \<open>an environment variable that is defined and not empty\<close>
  "is_set x = (case x of None \<Rightarrow> False | Some s \<Rightarrow> s \<noteq> [])"

definition success_body :: "jsval \<Rightarrow> jsval \<Rightarrow> string \<Rightarrow> jsval option" where
  "success_body data inner now_iso =
     stringify_object
       [(''success'', JBool True),
        (''message'', JStr ''Data received successfully''),
        (''export_id'', optional_prop data ''export_id''),
        (''processed_at'', JStr now_iso),
        (''stats'',
          JObj [(''sessions'',
                  js_or (optional_prop (optional_prop inner ''game_sessions'') ''length'') (JNum 0)),
                (''decisions'',
                  js_or (optional_prop (optional_prop inner ''aggregated_stats'') ''total_decisions'')
                    (JNum 0)),
                (''shares'',
                  js_or (optional_prop (optional_prop (optional_prop inner ''viral_analytics'')
                                          ''share_events'') ''length'') (JNum 0))])]"

definition logged_values :: "jsval \<Rightarrow> jsval \<Rightarrow> jsval list" where
  \<comment> \<open>the first four values spliced into the template of the \<^verbatim>\<open>console.log\<close> line:
      sessions, total decisions, shares, export id\<close>
  "logged_values data inner =
     [js_or (optional_prop (optional_prop inner ''game_sessions'') ''length'') (JNum 0),
      js_or (optional_prop (optional_prop inner ''aggregated_stats'') ''total_decisions'') (JNum 0),
      js_or (optional_prop (optional_prop (optional_prop inner ''viral_analytics'')
                              ''share_events'') ''length'') (JNum 0),
      optional_prop data ''export_id'']"

definition log_line :: "platform \<Rightarrow> jsval \<Rightarrow> jsval \<Rightarrow> jsval \<Rightarrow> js_error + string list" where
  \<comment> \<open>the template of the \<^verbatim>\<open>console.log\<close> line: each value is converted to a string in
      turn, the ISO date of \<^verbatim>\<open>data.timestamp\<close> last; the result is the list of the spliced
      texts\<close>
  "log_line pf data inner stamp =
     js_bind (map_js (template_string pf) (logged_values data inner)) (\<lambda>texts.
     js_bind (date_iso pf stamp) (\<lambda>iso.
     Inr (texts @ [case iso of JStr s \<Rightarrow> s | _ \<Rightarrow> []])))"

text \<open>
  The body of the \<^verbatim>\<open>try\<close>. \<^verbatim>\<open>JSON.parse\<close> applied to a body that is \<^verbatim>\<open>null\<close> reads the
  text \<^verbatim>\<open>null\<close>.
\<close>

definition handler_try ::
  "platform \<Rightarrow> env \<Rightarrow> js_error option \<Rightarrow> (nat \<Rightarrow> js_error option) \<Rightarrow> string \<Rightarrow> event
     \<Rightarrow> response action" where
  "handler_try pf ev_env connect outcome now_iso ev =
     act_bind
       (act_pure (case JSON_parse pf (case body ev of None \<Rightarrow> ''null'' | Some s \<Rightarrow> s) of
                    None \<Rightarrow> Inl SyntaxError | Some v \<Rightarrow> Inr v)) (\<lambda>data.
     act_bind (act_pure (get_prop data ''data'')) (\<lambda>inner.
     act_bind (act_pure (if truthy inner then get_prop data ''timestamp'' else Inr JUndefined))
       (\<lambda>timestamp.
     if \<not> truthy inner \<or> \<not> truthy timestamp then
       act_pure (Inr \<lparr>statusCode = 400, headers = cors_headers,
                       response_body = stringify_object [(''error'', JStr ''Invalid data structure'')]\<rparr>)
     else
       act_bind
         (if is_set (supabaseUrl ev_env) \<and> is_set (supabaseKey ev_env)
          then persist pf connect outcome now_iso data inner else act_pure (Inr ())) (\<lambda>u.
       act_bind (act_pure (log_line pf data inner timestamp)) (\<lambda>logged.
       act_pure (Inr \<lparr>statusCode = 200, headers = cors_headers,
                       response_body = success_body data inner now_iso\<rparr>))))))"

definition handler ::
  "platform \<Rightarrow> env \<Rightarrow> js_error option \<Rightarrow> (nat \<Rightarrow> js_error option) \<Rightarrow> string \<Rightarrow> event
     \<Rightarrow> response \<times> db_log" where
  "handler pf ev_env connect outcome now_iso ev =
     (if httpMethod ev = ''OPTIONS'' then
        (\<lparr>statusCode = 200, headers = cors_headers, response_body = None\<rparr>, [])
      else if httpMethod ev \<noteq> ''POST'' then
        (\<lparr>statusCode = 405, headers = cors_headers,
          response_body = stringify_object [(''error'', JStr ''Method not allowed'')]\<rparr>, [])
      else
        (case handler_try pf ev_env connect outcome now_iso ev [] of
           (Inr r, calls) \<Rightarrow> (r, calls)
         | (Inl error, calls) \<Rightarrow>
             (\<lparr>statusCode = 500, headers = cors_headers,
               response_body =
                 stringify_object [(''error'', JStr ''Internal server error''),
                                   (''message'', JStr (error_message pf error))]\<rparr>, calls)))"

definition has_key :: "jsval option \<Rightarrow> string \<Rightarrow> bool" where
  \<comment> \<open>the response body is the text of an object with this key\<close>
  "has_key b k = (case b of Some (JObj kvs) \<Rightarrow> map_of kvs k \<noteq> None | _ \<Rightarrow> False)"

subsection \<open>A sample platform and sample stores\<close>

text \<open>
  A stored session as \<^verbatim>\<open>saveGameData\<close> writes it, with two answers, and the JSON text of
  the one-element array that holds it; the sector is left open. The timestamp
  1700000000000 is 14 November 2023, 22:13:20 UTC.
\<close>

definition session_value :: "string \<Rightarrow> jsval" where
  "session_value sector_text =
     JObj [(''session_id'', JStr ''flai_1700000000000_k3j9x2m1q''),
           (''demographics'',
             JObj [(''sector'', JStr sector_text), (''position'', JStr ''gerente''),
                   (''experience'', JStr ''5-10''), (''region'', JStr ''caba'')]),
           (''results'',
             JObj [(''total_score'', JNum 18), (''percentage'', JNum 18),
                   (''decision_types'',
                     JObj [(''ethical'', JNum 1), (''consultation'', JNum 1), (''risky'', JNum 0),
                           (''skipped'', JNum 0), (''timeout'', JNum 0)]),
                   (''avg_response_time'', JNum 11), (''game_duration'', JNum 60000)]),
           (''answers'',
             JArr [JObj [(''scenario_id'', JNum 1), (''option_type'', JStr ''ethical''),
                         (''cultural_flags'',
                           JArr [JStr ''ethical_clarity'', JStr ''policy_adherence'',
                                 JStr ''alternative_solution'']),
                         (''time_taken'', JNum 10)],
                   JObj [(''scenario_id'', JNum 2), (''option_type'', JStr ''consultation''),
                         (''cultural_flags'',
                           JArr [JStr ''boundary_setting'', JStr ''relationship_care'',
                                 JStr ''mutual_protection'']),
                         (''time_taken'', JNum 12)]]),
           (''timestamp'', JNum 1700000000000)]"

definition session_text :: "string \<Rightarrow> string" where
  "session_text sector_text =
     ''[{\"session_id\":\"flai_1700000000000_k3j9x2m1q\",\"demographics\":{\"sector\":\"'' @ sector_text @
     ''\",\"position\":\"gerente\",\"experience\":\"5-10\",\"region\":\"caba\"},'' @
     ''\"results\":{\"total_score\":18,\"percentage\":18,\"decision_types\":'' @
     ''{\"ethical\":1,\"consultation\":1,\"risky\":0,\"skipped\":0,\"timeout\":0},'' @
     ''\"avg_response_time\":11,\"game_duration\":60000},\"answers\":['' @
     ''{\"scenario_id\":1,\"option_type\":\"ethical\",\"cultural_flags\":'' @
     ''[\"ethical_clarity\",\"policy_adherence\",\"alternative_solution\"],\"time_taken\":10},'' @
     ''{\"scenario_id\":2,\"option_type\":\"consultation\",\"cultural_flags\":'' @
     ''[\"boundary_setting\",\"relationship_care\",\"mutual_protection\"],\"time_taken\":12}],'' @
     ''\"timestamp\":1700000000000}]''"

text \<open>
  For concrete inputs the platform is a set of tables. Each text on the left of
  \<open>sample_json\<close> is JSON and the value on the right is what \<^verbatim>\<open>JSON.parse\<close> returns for
  it; a text that is not in the table, such as \<^verbatim>\<open>{oops\<close>, stands for one that does not
  parse. The other tables list what \<^verbatim>\<open>new Date(v).toISOString()\<close> and \<^verbatim>\<open>String(v)\<close>
  return for the values that occur in the samples. The printer, the conversion to a
  number and the message texts play no part in the samples and are left blank.
\<close>

definition request_value :: jsval where
  \<comment> \<open>an export of a store without sessions, as \<^verbatim>\<open>exportAllData\<close> lays it out\<close>
  "request_value =
     JObj [(''timestamp'', JNum 1700000000000),
           (''export_id'', JStr ''export_1700000000000_ab12cd34e''),
           (''version'', JStr ''1.0''),
           (''data'',
             JObj [(''game_sessions'', JArr []),
                   (''leaderboard'', JArr []),
                   (''viral_analytics'',
                     JObj [(''share_events'', JArr []), (''page_visits'', JArr []),
                           (''referrals'', JArr [])]),
                   (''cultural_insights'', JObj []),
                   (''aggregated_stats'', JObj [(''total_decisions'', JNum 0)])])]"

definition request_text :: string where
  "request_text =
     ''{\"timestamp\":1700000000000,\"export_id\":\"export_1700000000000_ab12cd34e\",'' @
     ''\"version\":\"1.0\",\"data\":{\"game_sessions\":[],\"leaderboard\":[],'' @
     ''\"viral_analytics\":{\"share_events\":[],\"page_visits\":[],\"referrals\":[]},'' @
     ''\"cultural_insights\":{},\"aggregated_stats\":{\"total_decisions\":0}}}''"

definition sample_json :: "(string \<times> jsval) list" where
  "sample_json =
     [(''[]'', JArr []),
      (''null'', JNull),
      (''[{}]'', JArr [JObj []]),
      (request_text, request_value),
      (''{\"data\":{\"game_sessions\":[]},\"timestamp\":1700000000000,\"export_id\":{\"toString\":null}}'',
       JObj [(''data'', JObj [(''game_sessions'', JArr [])]), (''timestamp'', JNum 1700000000000),
             (''export_id'', JObj [(''toString'', JNull)])]),
      (''{\"data\":{\"game_sessions\":[]}}'', JObj [(''data'', JObj [(''game_sessions'', JArr [])])]),
      (session_text ''banca'', JArr [session_value ''banca'']),
      (session_text ''banca, seguros'', JArr [session_value ''banca, seguros''])]"

definition sample_dates :: "(jsval \<times> string) list" where
  "sample_dates =
     [(JNum 0, ''1970-01-01T00:00:00.000Z''),
      (JNum 1700000000000, ''2023-11-14T22:13:20.000Z'')]"

definition sample_strings :: "(jsval \<times> string) list" where
  "sample_strings =
     [(JNum 0, ''0''), (JNum 1, ''1''), (JNum 11, ''11''), (JNum 18, ''18''),
      (JNum 60000, ''60000'')]"

definition sample_platform :: platform where
  "sample_platform =
     \<lparr>JSON_parse = map_of sample_json,
      JSON_stringify = (\<lambda>v. []),
      toISOString = map_of sample_dates,
      ToString = (\<lambda>v. case map_of sample_strings v of None \<Rightarrow> [] | Some s \<Rightarrow> s),
      ToNumber = (\<lambda>v. NaN),
      error_message = (\<lambda>e. [])\<rparr>"



definition session_store :: "string \<Rightarrow> localStorage" where
  \<comment> \<open>one stored session of the given sector\<close>
  "session_store sector_text =
     (\<lambda>k. if k = ''flai_research_data'' then Some (session_text sector_text) else None)"

definition sample_row :: "string \<Rightarrow> jsval list" where
  \<comment> \<open>the row that \<^verbatim>\<open>downloadCSV\<close> builds for the sample session\<close>
  "sample_row sector_text =
     [JStr ''flai_1700000000000_k3j9x2m1q'', JStr ''2023-11-14T22:13:20.000Z'', JStr sector_text,
      JStr ''gerente'', JStr ''caba'', JStr ''5-10'', JNum 18, JNum 18, JNum 60000, JNum 11,
      JNum 1, JNum 1, JNum 0, JStr ''ethical'', JStr ''consultation'', JStr [], JStr [], JStr [],
      JStr [], JStr [], JStr [], JStr [], JStr []]"

definition no_database :: env where
  "no_database = \<lparr>supabaseUrl = None, supabaseKey = None\<rparr>"

definition request :: "string \<Rightarrow> string option \<Rightarrow> event" where
  "request method text = \<lparr>httpMethod = method, body = text\<rparr>"

definition sample_handler :: "event \<Rightarrow> response" where
  \<comment> \<open>the handler on the sample platform, without a database, answering at a fixed time\<close>
  "sample_handler ev =
     fst (handler sample_platform no_database None (\<lambda>n. None) ''2023-11-14T22:13:21.000Z'' ev)"


section \<open>Properties of the scorer\<close>

subsection \<open>Percentage and category\<close>

lemma foldl_plus_sum_list:
  "foldl (\<lambda>sum a. sum + f a) s xs = s + sum_list (map f xs)" for s :: int
  by (induction xs arbitrary: s) simp_all

lemma length_scenarios: "length scenarios = 10"
  by (simp add: scenarios_def)

lemma round_int: "Math_round (js_times (js_div (of_int t) (of_int (int 10 * 10))) 100) = Fin (of_int t)"
proof -
  have "\<lfloor>(of_int t :: rat) + 1 / 2\<rfloor> = t" by linarith
  then show ?thesis by (simp add: js_div_def)
qed

lemma percentage_eq:
  "percentage (calculateResults g now rnd) = Fin (of_int (sum_list (map score (answers g))))"
  using round_int by (simp add: calculateResults_def Let_def foldl_plus_sum_list length_scenarios)

lemma sum_scores_bounds:
  "\<forall>a \<in> set as. 0 \<le> score a \<and> score a \<le> 10 \<Longrightarrow>
   0 \<le> sum_list (map score as) \<and> sum_list (map score as) \<le> 10 * int (length as)"
  by (induction as) auto

lemma count_flags_gen:
  "fold (\<lambda>flag flagCounts.
             flagCounts(flag \<mapsto> (case flagCounts flag of None \<Rightarrow> 0 | Some c \<Rightarrow> c) + 1)) flags m f
   = (if f \<in> set flags then Some ((case m f of None \<Rightarrow> 0 | Some c \<Rightarrow> c) + count_list flags f) else m f)"
  by (induction flags arbitrary: m) auto

lemma count_flags_lookup:
  "(case count_flags flags f of None \<Rightarrow> 0 | Some c \<Rightarrow> c) = count_list flags f"
  unfolding count_flags_def count_flags_gen by (simp add: count_list_0_iff)

lemma occurrences_three:
  "a \<noteq> b \<Longrightarrow> a \<noteq> c \<Longrightarrow> b \<noteq> c \<Longrightarrow>
   occurrences [a, b, c] flags = count_list flags a + count_list flags b + count_list flags c"
  by (induction flags) (auto simp: occurrences_def)

lemma group_count_three:
  "group_count (count_flags flags) [a, b, c] = count_list flags a + count_list flags b + count_list flags c"
  by (simp add: group_count_def count_flags_lookup)

lemma group_count_consultation:
  "group_count (count_flags flags) consultationFlags = occurrences consultationFlags flags"
  unfolding consultationFlags_def by (simp only: group_count_three) (simp add: occurrences_three)

lemma group_count_risk:
  "group_count (count_flags flags) riskFlags = occurrences riskFlags flags"
  unfolding riskFlags_def by (simp only: group_count_three) (simp add: occurrences_three)

lemma group_count_relationship:
  "group_count (count_flags flags) relationshipFlags = occurrences relationshipFlags flags"
  unfolding relationshipFlags_def by (simp only: group_count_three) (simp add: occurrences_three)

lemma analyzeCulturalPatterns_eq:
  "analyzeCulturalPatterns rnd flags =
     (let fired =
            (if 3 \<le> occurrences consultationFlags flags then [consultation_insight rnd] else []) @
            (if 2 \<le> occurrences riskFlags flags then [risk_insight] else []) @
            (if 2 \<le> occurrences relationshipFlags flags then [relationship_insight] else [])
      in if fired = [] then [default_insight] else fired)"
  by (simp add: analyzeCulturalPatterns_def Let_def group_count_consultation group_count_risk
      group_count_relationship)

lemma category_of_Fin:
  "fst (category_of (Fin (of_int t))) =
     (if 85 \<le> t then ''Etico Ejemplar'' else if 70 \<le> t then ''Etico Solido''
      else if 55 \<le> t then ''Perfil Mixto'' else if 40 \<le> t then ''Perfil Pragmatico''
      else ''Perfil de Alto Riesgo'')"
proof -
  have *: "((85::rat) \<le> of_int t) = (85 \<le> t)" "((70::rat) \<le> of_int t) = (70 \<le> t)"
    "((55::rat) \<le> of_int t) = (55 \<le> t)" "((40::rat) \<le> of_int t) = (40 \<le> t)"
    by linarith+
  show ?thesis by (simp add: category_of_def *)
qed

lemma category_eq:
  "category (calculateResults g now rnd) = fst (category_of (percentage (calculateResults g now rnd)))"
  by (simp add: calculateResults_def Let_def)

text \<open>
  Claim C1. For a list of exactly ten answers whose scores lie between 0 and 10,
  \<^verbatim>\<open>calculateResults\<close> returns the sum of the scores as total, the percentage
  \<^verbatim>\<open>Math.round(total / 100 * 100)\<close>, which is the total itself and lies between 0 and 100,
  and the category of the fixed band that holds it: 85 and above, 70 to 84, 55 to 69,
  40 to 54, below 40.
\<close>

theorem scorer_ten_answers:
  assumes "length (answers g) = 10"
    and "\<forall>a \<in> set (answers g). 0 \<le> score a \<and> score a \<le> 10"
  shows "let total = sum_list (map score (answers g)); r = calculateResults g now rnd in
           total_score r = total \<and>
           percentage r = Math_round (js_times (js_div (of_int total) 100) 100) \<and>
           percentage r = Fin (of_int total) \<and> 0 \<le> total \<and> total \<le> 100 \<and>
           category r =
             (if 85 \<le> total then ''Etico Ejemplar'' else if 70 \<le> total then ''Etico Solido''
              else if 55 \<le> total then ''Perfil Mixto'' else if 40 \<le> total then ''Perfil Pragmatico''
              else ''Perfil de Alto Riesgo'')"
proof -
  let ?t = "sum_list (map score (answers g))"
  have b: "0 \<le> ?t \<and> ?t \<le> 100"
    using sum_scores_bounds[OF assms(2)] assms(1) by simp
  have t: "total_score (calculateResults g now rnd) = ?t"
    by (simp add: calculateResults_def Let_def foldl_plus_sum_list)
  have r: "Math_round (js_times (js_div (of_int ?t) 100) 100) = Fin (of_int ?t)"
    using round_int[of ?t] by simp
  show ?thesis
    unfolding Let_def category_eq percentage_eq category_of_Fin r using b t by simp
qed

lemma consultation_answers:
  "map score (answers consultation_game) = [7, 8, 6, 7, 8, 7, 8, 7, 8, 6]"
  by (simp add: consultation_game_def scenarios_def selectOption_def mk_option_def)

theorem scorer_ten_answers_witness:
  "length (answers consultation_game) = 10 \<and>
   map score (answers consultation_game) = [7, 8, 6, 7, 8, 7, 8, 7, 8, 6] \<and>
   percentage (calculateResults consultation_game 0 0) = Fin 72 \<and>
   category (calculateResults consultation_game 0 0) = ''Etico Solido''"
proof -
  have l: "length (answers consultation_game) = 10"
    by (simp add: consultation_game_def scenarios_def)
  have s: "\<forall>a \<in> set (answers consultation_game). 0 \<le> score a \<and> score a \<le> 10"
    by (simp add: consultation_game_def scenarios_def selectOption_def mk_option_def)
  have t: "sum_list (map score (answers consultation_game)) = 72"
    by (simp add: consultation_answers)
  have "percentage (calculateResults consultation_game 0 0) = Fin (of_int 72) \<and>
        0 \<le> (72::int) \<and> (72::int) \<le> 100 \<and>
        category (calculateResults consultation_game 0 0) =
          (if 85 \<le> (72::int) then ''Etico Ejemplar'' else if 70 \<le> (72::int) then ''Etico Solido''
           else if 55 \<le> (72::int) then ''Perfil Mixto'' else if 40 \<le> (72::int) then ''Perfil Pragmatico''
           else ''Perfil de Alto Riesgo'')"
    using scorer_ten_answers[OF l s, of 0 0, unfolded Let_def t, THEN conjunct2, THEN conjunct2] .
  then show ?thesis using l consultation_answers by simp
qed

text \<open>
  Claim C2. Whatever the length of the answer list, the percentage is
  \<^verbatim>\<open>Math.round(total / 100 * 100)\<close>: the denominator is the catalog's ten scenarios
  times ten points, never the number of answers, and the result is a finite number.
\<close>

theorem scorer_fixed_denominator:
  "percentage (calculateResults g now rnd) =
     Math_round (js_times (js_div (of_int (sum_list (map score (answers g)))) 100) 100) \<and>
   percentage (calculateResults g now rnd) = Fin (of_int (sum_list (map score (answers g))))"
  using round_int[of "sum_list (map score (answers g))"] by (simp add: percentage_eq)

lemma short_answers:
  "map score (answers short_game) = [10, 10]" "map time_taken (answers short_game) = [0, 10]"
  by (simp_all add: short_game_def scenarios_def selectOption_def mk_option_def)

text \<open>Two answers of ten points each give 20 percent, not 100.\<close>

theorem scorer_fixed_denominator_witness:
  "length (answers short_game) = 2 \<and> percentage (calculateResults short_game 0 0) = Fin 20"
proof -
  have t: "sum_list (map score (answers short_game)) = 20"
    by (simp add: short_answers)
  have "percentage (calculateResults short_game 0 0) = Fin (of_int 20)"
    using scorer_fixed_denominator[of short_game 0 0, unfolded t, THEN conjunct2] .
  then show ?thesis by (simp add: short_game_def)
qed

subsection \<open>Average response time\<close>

text \<open>
  Claim C10. \<^verbatim>\<open>avg_response_time\<close> is \<^verbatim>\<open>Math.round(S / N)\<close>, where \<open>S\<close> adds
  \<^verbatim>\<open>time_taken\<close> over the answers with a positive time only and \<open>N\<close> counts all
  answers; for an empty list the quotient is \<^verbatim>\<open>0 / 0\<close> and the result is \<^verbatim>\<open>NaN\<close>.
\<close>

theorem avg_response_time_formula:
  "avg_response_time (calculateResults g now rnd) =
     (if answers g = [] then NaN
      else Fin (of_int \<lfloor>of_int (sum_list (map time_taken (filter (\<lambda>a. 0 < time_taken a) (answers g))))
                        / of_nat (length (answers g)) + 1 / 2 :: rat\<rfloor>))"
  by (simp add: calculateResults_def Let_def js_div_def foldl_plus_sum_list)

text \<open>
  An answer given at once has \<^verbatim>\<open>time_taken = 0\<close>: it adds nothing to the sum and still
  counts in the divisor, so times 0 and 10 average to 5.
\<close>

theorem avg_response_time_formula_witness:
  "avg_response_time (calculateResults short_game 0 0) = Fin 5 \<and>
   avg_response_time (calculateResults (short_game\<lparr>answers := []\<rparr>) 0 0) = NaN"
proof -
  have a: "(answers short_game = []) = False" by (simp add: short_game_def)
  have s: "sum_list (map time_taken (filter (\<lambda>a. 0 < time_taken a) (answers short_game))) = 10"
    by (simp add: short_game_def selectOption_def)
  have l: "length (answers short_game) = 2" by (simp add: short_game_def)
  have "(rat_of_int 10 / rat_of_nat 2 + 1 / 2) = 11 / 2" by simp
  moreover have "\<lfloor>11 / 2 :: rat\<rfloor> = 5" by linarith
  ultimately have fl: "rat_of_int \<lfloor>rat_of_int 10 / rat_of_nat 2 + 1 / 2\<rfloor> = 5" by simp
  have 1: "avg_response_time (calculateResults short_game 0 0) = Fin 5"
    using avg_response_time_formula[of short_game 0 0, unfolded s l a if_False fl] .
  have 2: "avg_response_time (calculateResults (short_game\<lparr>answers := []\<rparr>) 0 0) = NaN"
    using avg_response_time_formula[of "short_game\<lparr>answers := []\<rparr>" 0 0] by simp
  show ?thesis using 1 2 by simp
qed

subsection \<open>Insight selection\<close>


lemma cultural_analysis_eq:
  "cultural_analysis (calculateResults g now rnd) =
     analyzeCulturalPatterns rnd (flatMap_flags (answers g))"
  by (simp add: calculateResults_def Let_def)



lemma skipped_flags:
  "set (flatMap_flags (answers skipped_game)) = {''time_pressure'', ''avoidance''}"
  by (auto simp add: skipped_game_def scenarios_def skipScenario_def flatMap_flags_def)

lemma occurrences_0: "set flagGroup \<inter> set flags = {} \<Longrightarrow> occurrences flagGroup flags = 0"
  by (auto simp: occurrences_def filter_empty_conv)

lemma skipped_occurrences:
  "occurrences consultationFlags (flatMap_flags (answers skipped_game)) = 0"
  "occurrences riskFlags (flatMap_flags (answers skipped_game)) = 0"
  "occurrences relationshipFlags (flatMap_flags (answers skipped_game)) = 0"
  by (rule occurrences_0, simp add: skipped_flags consultationFlags_def riskFlags_def
      relationshipFlags_def)+



subsection \<open>What the result depends on\<close>

lemma titles_eq:
  "map title (analyzeCulturalPatterns rnd1 flags) = map title (analyzeCulturalPatterns rnd2 flags)"
  by (simp add: analyzeCulturalPatterns_eq Let_def consultation_insight_def)

lemma analysis_draw:
  "analyzeCulturalPatterns rnd1 flags =
     map (\<lambda>i. if title i = ''Patron de Consulta Elevado'' then consultation_insight rnd1 else i)
       (analyzeCulturalPatterns rnd2 flags)"
  by (simp add: analyzeCulturalPatterns_eq Let_def consultation_insight_def risk_insight_def
      relationship_insight_def default_insight_def)

text \<open>
  Claim C5, as amended. Two evaluations of \<^verbatim>\<open>calculateResults\<close> on the same answers
  agree on every field except \<^verbatim>\<open>game_duration\<close>, which follows the clock, and the
  description of the consultation insight, which carries the draw of
  \<^verbatim>\<open>Math.random()\<close>: the titles of the insights agree, every other insight is the same,
  and the whole insight list is the same when the consultation group occurs fewer than
  3 times or the two draws are equal.
\<close>

theorem scorer_deterministic_up_to_draw_and_clock:
  "let r1 = calculateResults g now1 rnd1; r2 = calculateResults g now2 rnd2 in
     r1\<lparr>cultural_analysis := [], game_duration := 0\<rparr> =
       r2\<lparr>cultural_analysis := [], game_duration := 0\<rparr> \<and>
     game_duration r1 - game_duration r2 = now1 - now2 \<and>
     map title (cultural_analysis r1) = map title (cultural_analysis r2) \<and>
     cultural_analysis r1 =
       map (\<lambda>i. if title i = ''Patron de Consulta Elevado'' then consultation_insight rnd1 else i)
         (cultural_analysis r2) \<and>
     (occurrences consultationFlags (flatMap_flags (answers g)) < 3 \<or> rnd1 = rnd2
        \<longrightarrow> cultural_analysis r1 = cultural_analysis r2)"
proof -
  have 1: "(calculateResults g now1 rnd1)\<lparr>cultural_analysis := [], game_duration := 0\<rparr> =
       (calculateResults g now2 rnd2)\<lparr>cultural_analysis := [], game_duration := 0\<rparr>"
    by (simp add: calculateResults_def Let_def)
  have 2: "game_duration (calculateResults g now1 rnd1) - game_duration (calculateResults g now2 rnd2)
      = now1 - now2"
    by (simp add: calculateResults_def Let_def)
  have 3: "occurrences consultationFlags (flatMap_flags (answers g)) < 3 \<or> rnd1 = rnd2
        \<longrightarrow> cultural_analysis (calculateResults g now1 rnd1) =
            cultural_analysis (calculateResults g now2 rnd2)"
    by (auto simp add: cultural_analysis_eq analyzeCulturalPatterns_eq Let_def)
  show ?thesis
    unfolding Let_def using 1 2 3 titles_eq[of rnd1 _ rnd2] analysis_draw[of rnd1 _ rnd2]
    by (simp only: cultural_analysis_eq)
qed

theorem scorer_deterministic_up_to_draw_and_clock_witness:
  "occurrences consultationFlags (flatMap_flags (answers skipped_game)) < 3 \<and>
   cultural_analysis (calculateResults skipped_game 0 0) =
     cultural_analysis (calculateResults skipped_game 5 (1 / 2))"
proof -
  have h: "occurrences consultationFlags (flatMap_flags (answers skipped_game)) < 3"
    by (simp add: skipped_occurrences)
  from scorer_deterministic_up_to_draw_and_clock[of skipped_game 0 0 5 "1 / 2", unfolded Let_def,
      THEN conjunct2, THEN conjunct2, THEN conjunct2, THEN conjunct2] h
  show ?thesis by blast
qed

text \<open>
  Claim C5 as stated fails: on the session that always consults, two draws give two
  different descriptions of the first insight.
\<close>

lemma consultation_occurrences:
  "occurrences consultationFlags (flatMap_flags (answers consultation_game)) = 4"
  by (simp add: consultation_game_def scenarios_def selectOption_def mk_option_def
      flatMap_flags_def occurrences_def consultationFlags_def)

theorem scorer_random_insight_counterexample:
  "description (hd (cultural_analysis (calculateResults consultation_game 0 0))) \<noteq>
   description (hd (cultural_analysis (calculateResults consultation_game 0 (1 / 2))))"
  by (simp add: cultural_analysis_eq analyzeCulturalPatterns_eq Let_def consultation_occurrences
      consultation_insight_def)



section \<open>Properties of the leaderboard\<close>

subsection \<open>Sorting and the cap of 100\<close>

lemma set_insert_by: "set (insert_by cmp x ys) = insert x (set ys)"
  by (induction ys) auto

lemma mset_insert_by: "mset (insert_by cmp x ys) = add_mset x (mset ys)"
  by (induction ys) auto

lemma mset_js_sort: "mset (js_sort cmp xs) = mset xs"
  by (induction xs) (simp_all add: js_sort_def mset_insert_by)

lemma length_js_sort: "length (js_sort cmp xs) = length xs"
  using mset_js_sort[of cmp xs] by (metis size_mset)

lemma cmp_addEntry_le: "(cmp_addEntry a b \<le> 0) = before_addEntry a b"
  by (auto simp: cmp_addEntry_def before_addEntry_def)

lemma before_addEntry_total: "\<not> before_addEntry a b \<Longrightarrow> before_addEntry b a"
  by (auto simp: before_addEntry_def)

lemma before_addEntry_trans: "before_addEntry a b \<Longrightarrow> before_addEntry b c \<Longrightarrow> before_addEntry a c"
  by (auto simp: before_addEntry_def)

lemma sorted_insert_by_addEntry:
  "sorted_wrt before_addEntry ys \<Longrightarrow> sorted_wrt before_addEntry (insert_by cmp_addEntry x ys)"
proof (induction ys)
  case Nil
  then show ?case by simp
next
  case (Cons y ys)
  show ?case
  proof (cases "cmp_addEntry x y \<le> 0")
    case True
    then have "before_addEntry x y" by (simp add: cmp_addEntry_le)
    with Cons.prems show ?thesis using True
      by (auto intro: before_addEntry_trans)
  next
    case False
    then have "before_addEntry y x"
      by (simp add: cmp_addEntry_le before_addEntry_total)
    with Cons show ?thesis using False
      by (auto simp: set_insert_by)
  qed
qed

lemma sorted_js_sort_addEntry: "sorted_wrt before_addEntry (js_sort cmp_addEntry xs)"
  by (induction xs) (simp_all add: js_sort_def sorted_insert_by_addEntry)

lemma leaderboard_sorted_alt: "leaderboard_sorted es = sorted_wrt before_addEntry es"
  unfolding leaderboard_sorted_def before_addEntry_def ..

lemma sorted_wrt_take: "sorted_wrt P xs \<Longrightarrow> sorted_wrt P (take n xs)"
  by (metis append_take_drop_id sorted_wrt_append)

lemma addEntry_leaderboard:
  "flai_leaderboard (snd (addEntry gd newId newName now st)) =
     take 100 (js_sort cmp_addEntry (flai_leaderboard st @
       [\<lparr>entry_id = Some newId, entry_name = Some newName, entry_score = gd_score gd,
             entry_category = gd_category gd,
             entry_sector = or_default (gd_sector gd) ''no_especificado'',
             entry_position = or_default (gd_position gd) ''no_especificado'',
             entry_region = or_default (gd_region gd) ''no_especificado'',
             entry_timestamp = (case gd_timestamp gd of None \<Rightarrow> now | Some t \<Rightarrow> if t = 0 then now else t),
             entry_verified = Some False\<rparr>]))"
  by (simp add: addEntry_def Let_def saveLeaderboardData_def maxEntries_def)

text \<open>
  After \<^verbatim>\<open>addEntry\<close> the stored list is in the specification's order (score descending,
  ties with the most recent timestamp first) and holds at most 100 entries.
\<close>

lemma addEntry_sorted_capped:
  "leaderboard_sorted (flai_leaderboard (snd (addEntry gd newId newName now st))) \<and>
   length (flai_leaderboard (snd (addEntry gd newId newName now st))) =
     min 100 (length (flai_leaderboard st) + 1)"
  unfolding addEntry_leaderboard leaderboard_sorted_alt
  by (simp add: sorted_wrt_take sorted_js_sort_addEntry length_js_sort)


lemma cmp_saveGameData_le: "(cmp_saveGameData a b \<le> 0) = (entry_score b \<le> entry_score a)"
  by (simp add: cmp_saveGameData_def)

lemma sorted_insert_by_saveGameData:
  "sorted_by_score ys \<Longrightarrow> sorted_by_score (insert_by cmp_saveGameData x ys)"
  unfolding sorted_by_score_def
  by (induction ys) (auto simp: cmp_saveGameData_le set_insert_by)

lemma sorted_js_sort_saveGameData: "sorted_by_score (js_sort cmp_saveGameData xs)"
proof (induction xs)
  case Nil
  show ?case by (simp add: js_sort_def sorted_by_score_def)
next
  case (Cons x xs)
  then show ?case using sorted_insert_by_saveGameData[of "js_sort cmp_saveGameData xs" x]
    by (simp add: js_sort_def)
qed

lemma saveGameData_leaderboard:
  "saveGameData g (calculateResults g now rnd) now' st =
     Some (st\<lparr>flai_leaderboard :=
       take 100 (js_sort cmp_saveGameData (flai_leaderboard st @
         [\<lparr>entry_id = None, entry_name = None,
           entry_score = sum_list (map score (answers g)),
           entry_category = category (calculateResults g now rnd),
           entry_sector = sector (userProfile g), entry_position = position (userProfile g),
           entry_region = region (userProfile g), entry_timestamp = now',
           entry_verified = None\<rparr>]))\<rparr>)"
  by (simp add: saveGameData_def percentage_eq Let_def)

text \<open>
  After the update of \<^verbatim>\<open>saveGameData\<close> the stored list is in descending order of score
  and holds at most 100 entries; the order of ties is the subject of the next theorem.
\<close>

lemma saveGameData_sorted_capped:
  "case saveGameData g (calculateResults g now rnd) now' st of
     None \<Rightarrow> False
   | Some st' \<Rightarrow>
       sorted_by_score (flai_leaderboard st') \<and>
       length (flai_leaderboard st') = min 100 (length (flai_leaderboard st) + 1)"
  unfolding saveGameData_leaderboard
  using sorted_js_sort_saveGameData sorted_wrt_take[of _ _ 100]
  by (simp add: sorted_by_score_def length_js_sort)

text \<open>
  Claim C4, at the input where the code departs from it. The store holds one entry with
  72 percent written at time 1000; a second session ends with 72 percent at time 2000.
  \<^verbatim>\<open>saveGameData\<close> leaves the older entry first, so the stored list is not in the
  order "ties broken by most recent timestamp first"; \<^verbatim>\<open>addEntry\<close> on the same store
  and the same score puts the newer entry first, as its comment says.
\<close>

theorem saveGameData_breaks_ties_oldest_first:
  "(case saveGameData consultation_game (calculateResults consultation_game 0 0) 2000 tie_storage of
      None \<Rightarrow> False
    | Some st' \<Rightarrow>
        map (\<lambda>e. (entry_score e, entry_timestamp e)) (flai_leaderboard st') =
          [(72, 1000), (72, 2000)] \<and>
        \<not> leaderboard_sorted (flai_leaderboard st')) \<and>
   map (\<lambda>e. (entry_score e, entry_timestamp e))
     (flai_leaderboard (snd (addEntry
        \<lparr>gd_score = 72, gd_category = ''Etico Solido'', gd_sector = Some ''not_specified'',
         gd_position = Some ''not_specified'', gd_region = Some ''not_specified'',
         gd_timestamp = Some 2000\<rparr> ''entry_2000_abc'' ''Ana B.'' 2000 tie_storage))) =
     [(72, 2000), (72, 1000)]"
  unfolding saveGameData_leaderboard addEntry_leaderboard
  by (simp add: consultation_answers tie_storage_def tie_entry_def js_sort_def
      cmp_saveGameData_def cmp_addEntry_def leaderboard_sorted_def)


subsection \<open>Which scores survive the cap\<close>

lemma mset_insert_desc: "mset (insert_desc y zs) = add_mset y (mset zs)"
  by (induction zs) auto

lemma set_insert_desc: "set (insert_desc y zs) = insert y (set zs)"
  by (induction zs) auto

lemma sorted_insert_desc:
  "sorted_wrt (\<lambda>a b. b \<le> a) zs \<Longrightarrow> sorted_wrt (\<lambda>a b. b \<le> a) (insert_desc y zs)"
  by (induction zs) (auto simp: set_insert_desc)

lemma desc_unique:
  fixes xs :: "int list"
  assumes "sorted_wrt (\<lambda>a b. b \<le> a) ys" and "mset ys = mset xs"
  shows "ys = rev (sort xs)"
proof -
  have "sorted (rev ys)" using assms(1) by (simp add: sorted_wrt_rev)
  moreover have "mset (rev ys) = mset xs" using assms(2) by simp
  ultimately have "sort xs = rev ys" by (rule properties_for_sort[rotated])
  then show ?thesis by simp
qed

lemma desc_rev_sort: "sorted_wrt (\<lambda>a b. b \<le> a) (rev (sort xs))" for xs :: "int list"
  by (simp add: sorted_wrt_rev)

lemma rev_sort_snoc: "rev (sort (xs @ [y])) = insert_desc y (rev (sort xs))" for xs :: "int list"
  by (rule desc_unique[symmetric]) (simp_all add: sorted_insert_desc desc_rev_sort mset_insert_desc)

lemma take_insert_desc: "take k (insert_desc y (take k zs)) = take k (insert_desc y zs)"
proof (induction zs arbitrary: k)
  case Nil
  show ?case by (cases k) simp_all
next
  case (Cons z zs)
  show ?case
  proof (cases k)
    case 0
    then show ?thesis by simp
  next
    case (Suc j)
    show ?thesis
    proof (cases "z \<le> y")
      case True
      then show ?thesis using Suc by (cases j) simp_all
    next
      case False
      then show ?thesis using Suc Cons.IH[of j] by simp
    qed
  qed
qed


lemma before_addEntry_score: "before_addEntry a b \<Longrightarrow> entry_score b \<le> entry_score a"
  by (auto simp: before_addEntry_def)

lemma scores_js_sort_addEntry:
  "map entry_score (js_sort cmp_addEntry xs) = rev (sort (map entry_score xs))"
proof (rule desc_unique)
  have "sorted_wrt (\<lambda>a b. entry_score b \<le> entry_score a) (js_sort cmp_addEntry xs)"
    using sorted_js_sort_addEntry[of xs] before_addEntry_score
    by (rule sorted_wrt_mono_rel[rotated]) 
  then show "sorted_wrt (\<lambda>a b. b \<le> a) (map entry_score (js_sort cmp_addEntry xs))"
    by (simp add: sorted_wrt_map)
  show "mset (map entry_score (js_sort cmp_addEntry xs)) = mset (map entry_score xs)"
    by (simp add: mset_js_sort)
qed

lemma take_rev_sort_snoc:
  "take k (rev (sort (take k (rev (sort xs)) @ [y]))) = take k (rev (sort (xs @ [y])))"
  for xs :: "int list"
proof -
  have "sorted_wrt (\<lambda>a b. b \<le> a) (take k (rev (sort xs)))"
    by (rule sorted_wrt_take) (rule desc_rev_sort)
  then have "rev (sort (take k (rev (sort xs)))) = take k (rev (sort xs))"
    using desc_unique[of "take k (rev (sort xs))" "take k (rev (sort xs))"] by simp
  then show ?thesis by (simp only: rev_sort_snoc take_insert_desc)
qed

lemma addEntry_scores:
  "map entry_score (flai_leaderboard (snd (addEntry gd newId newName now st))) =
     take 100 (rev (sort (map entry_score (flai_leaderboard st) @ [gd_score gd])))"
  unfolding addEntry_leaderboard take_map[symmetric] scores_js_sort_addEntry by simp

lemma addEntries_scores_gen:
  "map entry_score (flai_leaderboard st) = take 100 (rev (sort seen)) \<Longrightarrow>
   map entry_score (flai_leaderboard (addEntries calls st)) =
     take 100 (rev (sort (seen @ map (\<lambda>c. gd_score (fst c)) calls)))"
proof (induction calls arbitrary: st seen)
  case Nil
  then show ?case by simp
next
  case (Cons c calls)
  obtain gd newId newName now where c: "c = (gd, newId, newName, now)"
    by (cases c) auto
  have "map entry_score (flai_leaderboard (snd (addEntry gd newId newName now st))) =
          take 100 (rev (sort ((seen @ [gd_score gd]))))"
    by (simp only: addEntry_scores Cons.prems take_rev_sort_snoc)
  from Cons.IH[OF this] show ?case by (simp add: c)
qed

lemma addEntries_top_scores:
  "map entry_score (flai_leaderboard (addEntries calls empty_storage)) =
     take 100 (rev (sort (map (\<lambda>c. gd_score (fst c)) calls)))"
  using addEntries_scores_gen[of empty_storage "[]" calls] by (simp add: empty_storage_def)

text \<open>
  Inserting 105 entries into an empty store with \<^verbatim>\<open>addEntry\<close> leaves exactly 100, whose
  scores are all but the 5 lowest of the inserted ones.
\<close>

lemma addEntries_105:
  assumes "length calls = 105"
  shows "length (flai_leaderboard (addEntries calls empty_storage)) = 100 \<and>
         map entry_score (flai_leaderboard (addEntries calls empty_storage)) =
           rev (drop 5 (sort (map (\<lambda>c. gd_score (fst c)) calls)))"
proof -
  let ?s = "sort (map (\<lambda>c. gd_score (fst c)) calls)"
  have l: "length ?s = 105" using assms by simp
  have "take 100 (rev ?s) = rev (drop 5 ?s)" using l by (simp add: take_rev)
  moreover have "length (map entry_score (flai_leaderboard (addEntries calls empty_storage))) = 100"
    unfolding addEntries_top_scores using l by simp
  then have "length (flai_leaderboard (addEntries calls empty_storage)) = 100"
    by (simp only: length_map)
  ultimately show ?thesis by (simp only: addEntries_top_scores simp_thms)
qed


subsection \<open>Grouped counts and averages\<close>

text \<open>
  A distribution maps a key to the number of entries that carry it, and an average map
  gives \<^verbatim>\<open>Math.round(total / count)\<close> over the entries of the key.
\<close>


lemma filter_key_absent: "k \<notin> key ` set data \<Longrightarrow> filter (\<lambda>e. key e = k) data = []"
  by (induction data) auto

lemma count_by_gen:
  "fold (\<lambda>e distribution.
             distribution(key e \<mapsto> (case distribution (key e) of None \<Rightarrow> 0 | Some c \<Rightarrow> c) + 1))
          data m k
   = (if k \<in> key ` set data
      then Some ((case m k of None \<Rightarrow> 0 | Some c \<Rightarrow> c) + length (filter (\<lambda>e. key e = k) data))
      else m k)"
  by (induction data arbitrary: m) (simp_all add: filter_key_absent)

lemma count_by_eq:
  "count_by key data k =
     (if k \<in> key ` set data then Some (length (filter (\<lambda>e. key e = k) data)) else None)"
  unfolding count_by_def count_by_gen by simp

lemma group_totals_gen:
  "fold (\<lambda>e scores.
             let cur = (case scores (key e) of None \<Rightarrow> (0, 0) | Some tc \<Rightarrow> tc)
             in scores(key e \<mapsto> (fst cur + entry_score e, snd cur + 1)))
          data m k
   = (if k \<in> key ` set data
      then Some (fst (case m k of None \<Rightarrow> (0, 0) | Some tc \<Rightarrow> tc)
                   + sum_list (map entry_score (filter (\<lambda>e. key e = k) data)),
                 snd (case m k of None \<Rightarrow> (0, 0) | Some tc \<Rightarrow> tc)
                   + length (filter (\<lambda>e. key e = k) data))
      else m k)"
  by (induction data arbitrary: m) (simp_all add: Let_def filter_key_absent)

lemma group_averages_eq:
  "group_averages key data k =
     (if k \<in> key ` set data
      then Some (Math_round (js_div (of_int (sum_list (map entry_score (filter (\<lambda>e. key e = k) data))))
                                    (of_nat (length (filter (\<lambda>e. key e = k) data)))))
      else None)"
  unfolding group_averages_def group_totals_def group_totals_gen by simp

text \<open>
  \<^verbatim>\<open>entries_by_day\<close> counts entries by their age in days at the time of the call, so
  it follows the clock: the same stored entry is zero days old now and one day old a day
  later.
\<close>

lemma entries_by_day_follows_clock:
  "getEntriesByDay [tie_entry] 1000 0 = Some 1 \<and> getEntriesByDay [tie_entry] 86401000 0 = None"
  by (simp add: getEntriesByDay_def count_by_eq tie_entry_def)

text \<open>
  Claim C6. Two calls of \<^verbatim>\<open>getComprehensiveAnalytics\<close> on the same store, whatever the
  clock shows at each, return the same summary (entry count, averages, score-range
  distribution), the same counts by sector, region and position, the same averages by
  sector and region, and the same counts by hour. The call reads the store and writes
  nothing.
\<close>

theorem getComprehensiveAnalytics_repeatable:
  "let first_call = getComprehensiveAnalytics getHours st now1;
       second_call = getComprehensiveAnalytics getHours st now2
   in comp_summary first_call = comp_summary second_call \<and>
      comp_demographic first_call = comp_demographic second_call \<and>
      comp_performance first_call = comp_performance second_call \<and>
      peak_hours (comp_temporal first_call) = peak_hours (comp_temporal second_call)"
  by (simp add: getComprehensiveAnalytics_def Let_def)


section \<open>Properties of the reads from the store\<close>

lemma sample_parse_facts:
  "JSON_parse sample_platform ''[]'' = Some (JArr [])"
  "JSON_parse sample_platform ''null'' = Some JNull"
  "JSON_parse sample_platform ''[{}]'' = Some (JArr [JObj []])"
  "JSON_parse sample_platform ''{oops'' = None"
  by (simp_all add: sample_platform_def sample_json_def session_text_def request_text_def)






section \<open>Properties of the CSV export\<close>

subsection \<open>From stored answers to cells\<close>

lemma js_bind_Inr: "(js_bind x f = Inr r) = (\<exists>v. x = Inr v \<and> f v = Inr r)"
  by (cases x) (simp_all add: js_bind_def)

lemma map_js_Inr:
  "map_js f xs = Inr ys \<Longrightarrow> length ys = length xs \<and> (\<forall>k<length xs. f (xs ! k) = Inr (ys ! k))"
proof (induction xs arbitrary: ys)
  case Nil
  then show ?case by simp
next
  case (Cons x xs)
  from Cons.prems obtain y ys' where y: "f x = Inr y" and ys': "map_js f xs = Inr ys'"
    and ys: "ys = y # ys'"
    by (auto simp: js_bind_Inr)
  from Cons.IH[OF ys'] show ?case using y ys
    by (auto simp: nth_Cons split: nat.splits)
qed

lemma map_answer_Inr:
  assumes "map_answer a = Inr d"
  shows "\<exists>sid ot. get_prop a ''scenario_id'' = Inr sid \<and> get_prop a ''option_type'' = Inr ot \<and>
           get_prop d ''scenario_id'' = Inr sid \<and> get_prop d ''decision_type'' = Inr ot \<and> truthy d"
  using assms unfolding map_answer_def js_bind_Inr by auto

lemma array_map_Inr: "array_map f v = Inr ys \<Longrightarrow> \<exists>xs. v = JArr xs \<and> map_js f xs = Inr ys"
  by (cases v) (simp_all add: array_map_def)

lemma map_session_Inr:
  assumes "map_session s = Inr s'"
  shows "\<exists>as ds. get_prop s ''answers'' = Inr (JArr as) \<and> map_js map_answer as = Inr ds \<and>
           get_prop s' ''decisions'' = Inr (JArr ds)"
  using assms unfolding map_session_def js_bind_Inr
  by (auto dest!: array_map_Inr)


lemma find_decision_mapped:
  "map_js map_answer as = Inr ds \<Longrightarrow>
   js_bind (find_decision i ds) (\<lambda>decision.
      case decision of
        None \<Rightarrow> Inr (JStr [])
      | Some d \<Rightarrow> if truthy d then get_prop d ''decision_type'' else Inr (JStr []))
   = Inr (case find (\<lambda>a. get_prop a ''scenario_id'' = Inr (JNum (of_int i))) as of
            None \<Rightarrow> JStr []
          | Some a \<Rightarrow> (case get_prop a ''option_type'' of Inr t \<Rightarrow> t | Inl e \<Rightarrow> JUndefined))"
proof (induction as arbitrary: ds)
  case Nil
  then show ?case by (simp add: js_bind_def)
next
  case (Cons a as)
  from Cons.prems obtain d ds' where d: "map_answer a = Inr d"
    and ds': "map_js map_answer as = Inr ds'" and ds: "ds = d # ds'"
    by (auto simp: js_bind_Inr)
  from map_answer_Inr[OF d] obtain sid ot where
    p: "get_prop a ''scenario_id'' = Inr sid" "get_prop a ''option_type'' = Inr ot"
       "get_prop d ''scenario_id'' = Inr sid" "get_prop d ''decision_type'' = Inr ot" "truthy d"
    by blast
  show ?case
  proof (cases "sid = JNum (of_int i)")
    case True
    then show ?thesis using p by (simp add: ds js_bind_def)
  next
    case False
    then show ?thesis using p Cons.IH[OF ds'] by (simp add: ds js_bind_def)
  qed
qed

lemma scenario_cell_recorded:
  assumes "map_session s = Inr s'" and "get_prop s' ''decisions'' = Inr decisions"
  shows "scenario_cell decisions i = Inr (recorded_type s i)"
proof -
  from map_session_Inr[OF assms(1)] obtain as ds where
    a: "get_prop s ''answers'' = Inr (JArr as)" and m: "map_js map_answer as = Inr ds"
    and d: "get_prop s' ''decisions'' = Inr (JArr ds)"
    by blast
  from d assms(2) have "decisions = JArr ds" by simp
  then show ?thesis
    using find_decision_mapped[OF m, of i] a by (simp add: scenario_cell_def recorded_type_def)
qed

lemma csv_row_Inr:
  assumes "csv_row pf s' = Inr row"
  shows "\<exists>decisions cells first. get_prop s' ''decisions'' = Inr decisions \<and>
           map_js (scenario_cell decisions) [1, 2, 3, 4, 5, 6, 7, 8, 9, 10] = Inr cells \<and>
           length first = 13 \<and> row = first @ cells"
  using assms unfolding csv_row_def js_bind_Inr
  by (elim exE conjE) (rule exI, rule exI, rule exI[of _ "take 13 row"], auto)

lemma csv_row_columns:
  assumes "map_session s = Inr s'" and "csv_row pf s' = Inr row" and "j < 10"
  shows "length row = 23 \<and> row ! (13 + j) = recorded_type s (int j + 1)"
proof -
  from csv_row_Inr[OF assms(2)] obtain decisions cells first where
    d: "get_prop s' ''decisions'' = Inr decisions"
    and c: "map_js (scenario_cell decisions) [1, 2, 3, 4, 5, 6, 7, 8, 9, 10] = Inr cells"
    and f: "length first = 13" and r: "row = first @ cells"
    by blast
  from map_js_Inr[OF c] have l: "length cells = 10"
    and k: "\<forall>k<10. scenario_cell decisions ([1, 2, 3, 4, 5, 6, 7, 8, 9, 10] ! k) = Inr (cells ! k)"
    by simp_all
  have "[1, 2, 3, 4, 5, 6, 7, 8, 9, 10 :: int] ! j = int j + 1"
    using assms(3) by (auto simp: nth_Cons less_Suc_eq numeral_eq_Suc split: nat.splits)
  with k assms(3) have "scenario_cell decisions (int j + 1) = Inr (cells ! j)" by metis
  then have "cells ! j = recorded_type s (int j + 1)"
    using scenario_cell_recorded[OF assms(1) d, of "int j + 1"] by simp
  then show ?thesis using f l r by (simp add: nth_append)
qed


lemma getGameSessionsData_Inr:
  assumes "JSON_parse pf (getItem_or ls ''flai_research_data'' ''[]'') = Some (JArr stored)"
    and "getGameSessionsData pf ls \<noteq> []"
  shows "map_js map_session stored = Inr (getGameSessionsData pf ls)"
  using assms
  by (simp add: getGameSessionsData_def getGameSessionsData_try_def array_map_def
      split: sum.splits)

lemma downloadCSV_rows_columns:
  assumes "JSON_parse pf (getItem_or ls ''flai_research_data'' ''[]'') = Some (JArr stored)"
    and "downloadCSV_rows pf ls = Inr (Some rows)"
  shows "length rows = length stored + 1 \<and> hd rows = csv_header \<and>
         (\<forall>k<length stored.
            length (rows ! (k + 1)) = 23 \<and>
            (\<forall>j<10. rows ! (k + 1) ! (13 + j) = recorded_type (stored ! k) (int j + 1)))"
proof -
  let ?sessions = "getGameSessionsData pf ls"
  from assms(2) have ne: "?sessions \<noteq> []"
    by (auto simp: downloadCSV_rows_def Let_def split: if_splits)
  with assms(2) obtain body where b: "map_js (csv_row pf) ?sessions = Inr body"
    and r: "rows = csv_header # body"
    by (auto simp: downloadCSV_rows_def Let_def js_bind_Inr)
  from map_js_Inr[OF getGameSessionsData_Inr[OF assms(1) ne]]
  have l1: "length ?sessions = length stored"
    and m1: "\<forall>k<length stored. map_session (stored ! k) = Inr (?sessions ! k)"
    by simp_all
  from map_js_Inr[OF b]
  have l2: "length body = length ?sessions"
    and m2: "\<forall>k<length ?sessions. csv_row pf (?sessions ! k) = Inr (body ! k)"
    by simp_all
  have "length (rows ! (k + 1)) = 23 \<and>
        rows ! (k + 1) ! (13 + j) = recorded_type (stored ! k) (int j + 1)"
    if "k < length stored" "j < 10" for k j
    using csv_row_columns[of "stored ! k" "?sessions ! k" pf "body ! k" j] m1 m2 l1 that r
    by simp
  then have "length (rows ! (k + 1)) = 23 \<and>
        (\<forall>j<10. rows ! (k + 1) ! (13 + j) = recorded_type (stored ! k) (int j + 1))"
    if "k < length stored" for k
    using that by (metis zero_less_numeral)
  then show ?thesis using l1 l2 r by simp
qed

subsection \<open>From cells to text and back\<close>

lemma split_on_no_sep: "c \<notin> set x \<Longrightarrow> split_on c x = [x]"
  by (induction x) auto

lemma split_on_append: "c \<notin> set x \<Longrightarrow> split_on c (x @ c # rest) = x # split_on c rest"
  by (induction x) auto

lemma split_on_join:
  "xs \<noteq> [] \<Longrightarrow> \<forall>x \<in> set xs. c \<notin> set x \<Longrightarrow> split_on c (join_with [c] xs) = xs"
  by (induction "[c]" xs rule: join_with.induct) (simp_all add: split_on_no_sep split_on_append)

lemma set_join_with: "set (join_with sep xs) \<subseteq> set sep \<union> \<Union> (set ` set xs)"
  by (induction sep xs rule: join_with.induct) auto

lemma csv_columns_csvContent:
  assumes "rows \<noteq> []" and "\<forall>row \<in> set rows. row \<noteq> []"
    and "\<forall>row \<in> set rows. \<forall>cell \<in> set row.
           CHR '','' \<notin> set (cell_text pf cell) \<and> newline \<notin> set (cell_text pf cell)"
  shows "csv_columns (csvContent pf rows) = map (map (cell_text pf)) rows"
proof -
  let ?lines = "map (\<lambda>row. join_with '','' (map (cell_text pf) row)) rows"
  have nl: "\<forall>l \<in> set ?lines. newline \<notin> set l"
  proof
    fix l assume "l \<in> set ?lines"
    then obtain row where row: "row \<in> set rows" and l: "l = join_with '','' (map (cell_text pf) row)"
      by auto
    show "newline \<notin> set l"
      using set_join_with[of "'',''" "map (cell_text pf) row"] assms(3) row
      by (auto simp: l newline_def)
  qed
  have "split_on newline (join_with [newline] ?lines) = ?lines"
    using split_on_join[of ?lines newline] nl assms(1) by simp
  moreover have "split_on CHR '','' (join_with '','' (map (cell_text pf) row)) = map (cell_text pf) row"
    if "row \<in> set rows" for row
    using split_on_join[of "map (cell_text pf) row" "CHR '',''"] assms(2,3) that by simp
  ultimately show ?thesis by (simp add: csv_columns_def csvContent_def)
qed

text \<open>
  Claim C9, as amended. When \<^verbatim>\<open>downloadCSV\<close> produces a file for a stored array of
  sessions, the rows it joined are a header and one row per stored session, in order;
  in each session's row the ten cells under \<^verbatim>\<open>scenario_1\<close> to \<^verbatim>\<open>scenario_10\<close> hold the
  \<^verbatim>\<open>option_type\<close> of the first stored answer with that scenario id, and the empty string where
  there is none. The text of the file has the same cells column for column provided no
  cell contains a comma or a line break: cells are joined without quoting.
\<close>

theorem csv_scenario_columns:
  assumes "JSON_parse pf (getItem_or ls ''flai_research_data'' ''[]'') = Some (JArr stored)"
    and "downloadCSV pf ls = Inr (Some text)"
  shows "\<exists>rows. downloadCSV_rows pf ls = Inr (Some rows) \<and> text = csvContent pf rows \<and>
           length rows = length stored + 1 \<and> hd rows = csv_header \<and>
           (\<forall>k<length stored. \<forall>j<10.
              rows ! (k + 1) ! (13 + j) = recorded_type (stored ! k) (int j + 1)) \<and>
           ((\<forall>row \<in> set rows. \<forall>cell \<in> set row.
               CHR '','' \<notin> set (cell_text pf cell) \<and> newline \<notin> set (cell_text pf cell))
            \<longrightarrow> csv_columns text = map (map (cell_text pf)) rows)"
proof -
  from assms(2) obtain rows where r: "downloadCSV_rows pf ls = Inr (Some rows)"
    and t: "text = csvContent pf rows"
    by (auto simp: downloadCSV_def js_bind_Inr split: option.splits if_splits)
  note c = downloadCSV_rows_columns[OF assms(1) r]
  have ne: "rows \<noteq> []" using c by auto
  have h: "hd rows \<noteq> []" using c by (simp add: csv_header_def)
  have "row \<noteq> []" if "row \<in> set rows" for row
  proof -
    from that obtain n where n: "n < length rows" "row = rows ! n" by (auto simp: in_set_conv_nth)
    show ?thesis
    proof (cases n)
      case 0
      then show ?thesis using n h ne by (simp add: hd_conv_nth)
    next
      case (Suc k)
      then have "k < length stored" using n c by simp
      then have "length (rows ! (k + 1)) = 23" using c by blast
      then show ?thesis using n Suc by auto
    qed
  qed
  then have "\<forall>row \<in> set rows. row \<noteq> []" by blast
  from csv_columns_csvContent[OF ne this] c r t show ?thesis by blast
qed


subsection \<open>The export of the sample session\<close>

lemma sample_sessions:
  assumes "JSON_parse pf (session_text x) = Some (JArr [session_value x])"
  shows "getGameSessionsData pf (session_store x) =
     [JObj [(''session_id'', JStr ''flai_1700000000000_k3j9x2m1q''),
            (''timestamp'', JNum 1700000000000),
            (''demographics'',
              JObj [(''sector'', JStr x), (''position'', JStr ''gerente''),
                    (''experience'', JStr ''5-10''), (''region'', JStr ''caba'')]),
            (''performance'',
              JObj [(''total_score'', JNum 18), (''percentage'', JNum 18),
                    (''completion_time'', JNum 60000), (''avg_response_time'', JNum 11),
                    (''decision_breakdown'',
                      JObj [(''ethical'', JNum 1), (''consultation'', JNum 1), (''risky'', JNum 0),
                            (''skipped'', JNum 0), (''timeout'', JNum 0)])]),
            (''decisions'',
              JArr [JObj [(''scenario_id'', JNum 1), (''decision_type'', JStr ''ethical''),
                          (''cultural_flags'',
                            JArr [JStr ''ethical_clarity'', JStr ''policy_adherence'',
                                  JStr ''alternative_solution'']),
                          (''response_time'', JNum 10), (''timestamp'', JUndefined)],
                    JObj [(''scenario_id'', JNum 2), (''decision_type'', JStr ''consultation''),
                          (''cultural_flags'',
                            JArr [JStr ''boundary_setting'', JStr ''relationship_care'',
                                  JStr ''mutual_protection'']),
                          (''response_time'', JNum 12), (''timestamp'', JUndefined)]])]]"
proof -
  have "getItem_or (session_store x) ''flai_research_data'' ''[]'' = session_text x"
    by (simp add: getItem_or_def session_store_def session_text_def)
  then show ?thesis
    using assms
    by (simp add: getGameSessionsData_def getGameSessionsData_try_def array_map_def
        map_session_def map_answer_def js_bind_def session_value_def)
qed

lemma sample_rows:
  assumes "JSON_parse pf (session_text x) = Some (JArr [session_value x])"
    and "toISOString pf (JNum 1700000000000) = Some ''2023-11-14T22:13:20.000Z''"
  shows "downloadCSV_rows pf (session_store x) = Inr (Some [csv_header, sample_row x])"
  unfolding downloadCSV_rows_def sample_sessions[OF assms(1)]
  using assms(2)
  by (simp add: csv_row_def date_iso_def js_bind_def scenario_cell_def js_or_def sample_row_def)


lemma sample_platform_facts:
  "JSON_parse sample_platform (session_text ''banca'') = Some (JArr [session_value ''banca''])"
  "JSON_parse sample_platform (session_text ''banca, seguros'') =
     Some (JArr [session_value ''banca, seguros''])"
  "toISOString sample_platform (JNum 1700000000000) = Some ''2023-11-14T22:13:20.000Z''"
  by (simp_all add: sample_platform_def sample_json_def sample_dates_def session_text_def
      request_text_def)

lemma sample_cell_texts:
  "map (cell_text sample_platform) (sample_row x) =
     [''flai_1700000000000_k3j9x2m1q'', ''2023-11-14T22:13:20.000Z'', x, ''gerente'', ''caba'',
      ''5-10'', ''18'', ''18'', ''60000'', ''11'', ''1'', ''1'', ''0'', ''ethical'', ''consultation'',
      [], [], [], [], [], [], [], []]"
  by (simp add: sample_row_def cell_text_def to_string_def sample_platform_def sample_strings_def)

lemma header_cell_texts:
  "map (cell_text pf) csv_header =
     [''session_id'', ''timestamp'', ''sector'', ''position'', ''region'', ''experience'',
      ''total_score'', ''percentage'', ''completion_time'', ''avg_response_time'',
      ''ethical_decisions'', ''consultation_decisions'', ''risky_decisions'',
      ''scenario_1'', ''scenario_2'', ''scenario_3'', ''scenario_4'', ''scenario_5'',
      ''scenario_6'', ''scenario_7'', ''scenario_8'', ''scenario_9'', ''scenario_10'']"
  by (simp add: csv_header_def cell_text_def to_string_def)

lemma sample_rows_convert:
  "list_ex (list_ex to_string_throws) [csv_header, sample_row x] = False"
  by (simp add: csv_header_def sample_row_def)

lemma sample_data_line:
  "split_on CHR '','' (join_with '','' (map (cell_text sample_platform) (sample_row ''banca, seguros'')))
   = [''flai_1700000000000_k3j9x2m1q'', ''2023-11-14T22:13:20.000Z'', ''banca'', '' seguros'',
      ''gerente'', ''caba'', ''5-10'', ''18'', ''18'', ''60000'', ''11'', ''1'', ''1'', ''0'',
      ''ethical'', ''consultation'', [], [], [], [], [], [], [], []]"
  unfolding sample_cell_texts by simp

text \<open>
  Claim C9 as stated fails on a sector that contains a comma: the text of the sector
  fills two columns, every later cell moves one column to the right, and the column
  \<^verbatim>\<open>scenario_1\<close> of the session's line holds the count of risky decisions instead of the
  decision type \<^verbatim>\<open>ethical\<close> recorded for scenario 1.
\<close>

theorem csv_comma_shifts_columns_counterexample:
  "JSON_parse sample_platform (session_text ''banca, seguros'') =
     Some (JArr [session_value ''banca, seguros'']) \<and>
   recorded_type (session_value ''banca, seguros'') 1 = JStr ''ethical'' \<and>
   (case downloadCSV sample_platform (session_store ''banca, seguros'') of
      Inr (Some text) \<Rightarrow>
        csv_columns text ! 0 ! 13 = ''scenario_1'' \<and> csv_columns text ! 1 ! 13 = ''0''
    | _ \<Rightarrow> False)"
proof -
  let ?rows = "[csv_header, sample_row ''banca, seguros'']"
  have d: "downloadCSV sample_platform (session_store ''banca, seguros'') =
        Inr (Some (csvContent sample_platform ?rows))"
    by (simp only: downloadCSV_def js_bind_def
        sample_rows[OF sample_platform_facts(2) sample_platform_facts(3)] sample_rows_convert
        sum.case option.case if_False)
  have h: "newline \<notin> set (join_with '','' (map (cell_text sample_platform) csv_header))"
    unfolding header_cell_texts by (simp add: newline_def)
  have l: "newline \<notin> set (join_with '','' (map (cell_text sample_platform) (sample_row ''banca, seguros'')))"
    unfolding sample_cell_texts by (simp add: newline_def)
  have "split_on newline (csvContent sample_platform ?rows) =
      [join_with '','' (map (cell_text sample_platform) csv_header),
       join_with '','' (map (cell_text sample_platform) (sample_row ''banca, seguros''))]"
    using h l by (simp add: csvContent_def split_on_append split_on_no_sep)
  then have c: "csv_columns (csvContent sample_platform ?rows) =
      [split_on CHR '','' (join_with '','' (map (cell_text sample_platform) csv_header)),
       split_on CHR '','' (join_with '','' (map (cell_text sample_platform) (sample_row ''banca, seguros'')))]"
    by (simp add: csv_columns_def)
  have hs: "split_on CHR '','' (join_with '','' (map (cell_text sample_platform) csv_header)) ! 13
      = ''scenario_1''"
    unfolding header_cell_texts by simp
  have r: "recorded_type (session_value ''banca, seguros'') 1 = JStr ''ethical''"
    by (simp add: recorded_type_def session_value_def)
  show ?thesis
    unfolding d using c hs sample_data_line r sample_platform_facts(2) by simp
qed


theorem csv_scenario_columns_witness:
  "JSON_parse sample_platform (getItem_or (session_store ''banca'') ''flai_research_data'' ''[]'') =
     Some (JArr [session_value ''banca'']) \<and>
   (\<exists>text. downloadCSV sample_platform (session_store ''banca'') = Inr (Some text) \<and>
      csv_columns text ! 0 ! 13 = ''scenario_1'' \<and>
      csv_columns text ! 1 ! 13 = ''ethical'' \<and>
      csv_columns text ! 1 ! 14 = ''consultation'' \<and>
      csv_columns text ! 1 ! 15 = [])"
proof -
  let ?ls = "session_store ''banca''"
  let ?rows = "[csv_header, sample_row ''banca'']"
  let ?text = "csvContent sample_platform ?rows"
  have g: "getItem_or ?ls ''flai_research_data'' ''[]'' = session_text ''banca''"
    by (simp add: getItem_or_def session_store_def session_text_def)
  have h1: "JSON_parse sample_platform (getItem_or ?ls ''flai_research_data'' ''[]'') =
      Some (JArr [session_value ''banca''])"
    unfolding g by (rule sample_platform_facts(1))
  have r: "downloadCSV_rows sample_platform ?ls = Inr (Some ?rows)"
    by (rule sample_rows[OF sample_platform_facts(1) sample_platform_facts(3)])
  have h2: "downloadCSV sample_platform ?ls = Inr (Some ?text)"
    by (simp only: downloadCSV_def js_bind_def r sample_rows_convert sum.case option.case if_False)
  from csv_scenario_columns[OF h1 h2] obtain rows where
    rows: "downloadCSV_rows sample_platform ?ls = Inr (Some rows)"
    and cols: "(\<forall>row \<in> set rows. \<forall>cell \<in> set row.
               CHR '','' \<notin> set (cell_text sample_platform cell) \<and>
               newline \<notin> set (cell_text sample_platform cell))
            \<longrightarrow> csv_columns ?text = map (map (cell_text sample_platform)) rows"
    by blast
  from rows r have e: "rows = ?rows" by simp
  have "\<forall>t \<in> set (map (cell_text sample_platform) csv_header @
                    map (cell_text sample_platform) (sample_row ''banca'')).
          CHR '','' \<notin> set t \<and> newline \<notin> set t"
    unfolding header_cell_texts sample_cell_texts by (simp add: newline_def)
  then have "\<forall>row \<in> set ?rows. \<forall>cell \<in> set row.
               CHR '','' \<notin> set (cell_text sample_platform cell) \<and>
               newline \<notin> set (cell_text sample_platform cell)"
    by auto
  with cols e have "csv_columns ?text =
      [map (cell_text sample_platform) csv_header,
       map (cell_text sample_platform) (sample_row ''banca'')]"
    by simp
  then have "csv_columns ?text ! 0 ! 13 = ''scenario_1'' \<and>
      csv_columns ?text ! 1 ! 13 = ''ethical'' \<and>
      csv_columns ?text ! 1 ! 14 = ''consultation'' \<and>
      csv_columns ?text ! 1 ! 15 = []"
    unfolding header_cell_texts sample_cell_texts by simp
  with h1 h2 show ?thesis by blast
qed



section \<open>Properties of the ingestion handler\<close>

lemma handler_options:
  "httpMethod ev = ''OPTIONS'' \<Longrightarrow>
   fst (handler pf e connect outcome now_iso ev) =
     \<lparr>statusCode = 200, headers = cors_headers, response_body = None\<rparr>"
  by (simp add: handler_def)

lemma handler_other_method:
  "httpMethod ev \<noteq> ''OPTIONS'' \<Longrightarrow> httpMethod ev \<noteq> ''POST'' \<Longrightarrow>
   fst (handler pf e connect outcome now_iso ev) =
     \<lparr>statusCode = 405, headers = cors_headers,
      response_body = Some (JObj [(''error'', JStr ''Method not allowed'')])\<rparr>"
  by (simp add: handler_def stringify_object_def)

lemma handler_exception:
  "httpMethod ev = ''POST'' \<Longrightarrow> fst (handler_try pf e connect outcome now_iso ev []) = Inl err \<Longrightarrow>
   fst (handler pf e connect outcome now_iso ev) =
     \<lparr>statusCode = 500, headers = cors_headers,
      response_body = Some (JObj [(''error'', JStr ''Internal server error''),
                                  (''message'', JStr (error_message pf err))])\<rparr>"
  by (cases "handler_try pf e connect outcome now_iso ev []")
     (simp add: handler_def stringify_object_def)

lemma handler_returned:
  "httpMethod ev = ''POST'' \<Longrightarrow> fst (handler_try pf e connect outcome now_iso ev []) = Inr r \<Longrightarrow>
   fst (handler pf e connect outcome now_iso ev) = r"
  by (cases "handler_try pf e connect outcome now_iso ev []") (simp add: handler_def)

lemma act_bind_pure: "act_bind (act_pure x) f calls = (case x of Inl e \<Rightarrow> (Inl e, calls) | Inr v \<Rightarrow> f v calls)"
  by (cases x) (simp_all add: act_bind_def act_pure_def)

lemma handler_try_parse_error:
  "JSON_parse pf (case body ev of None \<Rightarrow> ''null'' | Some s \<Rightarrow> s) = None \<Longrightarrow>
   handler_try pf e connect outcome now_iso ev calls = (Inl SyntaxError, calls)"
  by (simp add: handler_try_def act_bind_pure)

lemma handler_try_parsed:
  assumes "JSON_parse pf (case body ev of None \<Rightarrow> ''null'' | Some s \<Rightarrow> s) = Some data"
  shows "handler_try pf e connect outcome now_iso ev calls =
     (case get_prop data ''data'' of
        Inl x \<Rightarrow> (Inl x, calls)
      | Inr inner \<Rightarrow>
          if \<not> truthy inner \<or> \<not> truthy (optional_prop data ''timestamp'')
          then (Inr \<lparr>statusCode = 400, headers = cors_headers,
                      response_body = Some (JObj [(''error'', JStr ''Invalid data structure'')])\<rparr>, calls)
          else
            (case (if is_set (supabaseUrl e) \<and> is_set (supabaseKey e)
                   then persist pf connect outcome now_iso data inner calls
                   else (Inr (), calls)) of
               (Inl x, calls') \<Rightarrow> (Inl x, calls')
             | (Inr u, calls') \<Rightarrow>
                 (case log_line pf data inner (optional_prop data ''timestamp'') of
                    Inl x \<Rightarrow> (Inl x, calls')
                  | Inr logged \<Rightarrow>
                      (Inr \<lparr>statusCode = 200, headers = cors_headers,
                             response_body = success_body data inner now_iso\<rparr>, calls'))))"
proof (cases "get_prop data ''data''")
  case (Inl x)
  then show ?thesis using assms by (simp add: handler_try_def act_bind_pure)
next
  case (Inr inner)
  then have "data \<noteq> JUndefined" "data \<noteq> JNull" by auto
  then obtain t where t: "get_prop data ''timestamp'' = Inr t"
    by (cases data) auto
  show ?thesis
    using assms Inr t
    by (simp add: handler_try_def act_bind_pure optional_prop_def stringify_object_def
        act_bind_def act_pure_def split: prod.splits sum.splits)
qed


lemma map_js_template:
  "\<not> list_ex to_string_throws vs \<Longrightarrow>
   map_js (template_string pf) vs = Inr (map (to_string pf) vs)"
  by (induction vs) (simp_all add: template_string_def js_bind_def)

lemma map_js_template_throws:
  "list_ex to_string_throws vs \<Longrightarrow> map_js (template_string pf) vs = Inl TypeError"
proof (induction vs)
  case Nil
  then show ?case by simp
next
  case (Cons v vs)
  then show ?case
    by (cases "to_string_throws v"; cases "map_js (template_string pf) vs")
       (simp_all add: template_string_def js_bind_def)
qed

lemma log_line_completes:
  assumes "\<not> list_ex to_string_throws (logged_values data inner)"
    and "\<not> to_string_throws stamp" and "toISOString pf stamp = Some printed"
  shows "log_line pf data inner stamp =
           Inr (map (to_string pf) (logged_values data inner) @ [printed])"
  using assms by (simp add: log_line_def map_js_template date_iso_def js_bind_def)

lemma log_line_throws:
  "list_ex to_string_throws (logged_values data inner) \<Longrightarrow>
   log_line pf data inner stamp = Inl TypeError"
  by (simp add: log_line_def map_js_template_throws js_bind_def)

lemma success_body_keys:
  "has_key (success_body data inner now_iso) ''success'' \<and>
   has_key (success_body data inner now_iso) ''processed_at'' \<and>
   has_key (success_body data inner now_iso) ''stats'' \<and>
   has_key (success_body data inner now_iso) ''export_id'' =
     (optional_prop data ''export_id'' \<noteq> JUndefined)"
  by (simp add: success_body_def stringify_object_def has_key_def)

lemma handler_try_shape:
  "(\<exists>err. fst (handler_try pf e connect outcome now_iso ev []) = Inl err) \<or>
   (\<exists>data inner. JSON_parse pf (case body ev of None \<Rightarrow> ''null'' | Some s \<Rightarrow> s) = Some data \<and>
      (fst (handler_try pf e connect outcome now_iso ev []) =
         Inr \<lparr>statusCode = 400, headers = cors_headers,
              response_body = Some (JObj [(''error'', JStr ''Invalid data structure'')])\<rparr> \<or>
       fst (handler_try pf e connect outcome now_iso ev []) =
         Inr \<lparr>statusCode = 200, headers = cors_headers,
              response_body = success_body data inner now_iso\<rparr>))"
proof (cases "JSON_parse pf (case body ev of None \<Rightarrow> ''null'' | Some s \<Rightarrow> s)")
  case None
  then show ?thesis by (simp add: handler_try_parse_error)
next
  case (Some data)
  show ?thesis
  proof (cases "fst (handler_try pf e connect outcome now_iso ev [])")
    case (Inl err)
    then show ?thesis by blast
  next
    case (Inr r)
    then have "r = \<lparr>statusCode = 400, headers = cors_headers,
              response_body = Some (JObj [(''error'', JStr ''Invalid data structure'')])\<rparr> \<or>
       (\<exists>inner. r = \<lparr>statusCode = 200, headers = cors_headers,
              response_body = success_body data inner now_iso\<rparr>)"
      unfolding handler_try_parsed[OF Some]
      by (auto split: sum.splits prod.splits if_splits)
    then show ?thesis using Inr Some by auto
  qed
qed

text \<open>
  Claim C7, as amended. An \<^verbatim>\<open>OPTIONS\<close> request receives 200 with an empty body; any
  other method than \<^verbatim>\<open>POST\<close> receives 405. For a \<^verbatim>\<open>POST\<close>: when the body parses to a
  value other than \<^verbatim>\<open>null\<close> whose \<^verbatim>\<open>data\<close> or \<^verbatim>\<open>timestamp\<close> is missing or falsy, the
  status is 400; when both are present, the database block, if configured, completes,
  the values of the log line convert to strings and the timestamp is a valid date, the
  status is 200 and the body is the success object; when instead one of the logged
  values does not convert, the status is 500;
  every 200 body has the keys \<^verbatim>\<open>success\<close>, \<^verbatim>\<open>processed_at\<close> and \<^verbatim>\<open>stats\<close>, and
  \<^verbatim>\<open>export_id\<close> exactly when the request carried one; every exception of the processing,
  a body that does not parse among them, gives 500 with \<^verbatim>\<open>error\<close> and the exception's
  \<^verbatim>\<open>message\<close>; no other status occurs.
\<close>

theorem handler_responses:
  "let r = fst (handler pf e connect outcome now_iso ev);
       text = (case body ev of None \<Rightarrow> ''null'' | Some s \<Rightarrow> s);
       configured = (is_set (supabaseUrl e) \<and> is_set (supabaseKey e))
   in (httpMethod ev = ''OPTIONS'' \<longrightarrow> statusCode r = 200 \<and> response_body r = None) \<and>
      (httpMethod ev \<noteq> ''OPTIONS'' \<and> httpMethod ev \<noteq> ''POST'' \<longrightarrow> statusCode r = 405) \<and>
      (httpMethod ev = ''POST'' \<longrightarrow>
         (JSON_parse pf text = Some data \<and> get_prop data ''data'' = Inr inner \<and>
          (\<not> truthy inner \<or> \<not> truthy (optional_prop data ''timestamp''))
            \<longrightarrow> statusCode r = 400) \<and>
         (JSON_parse pf text = Some data \<and> get_prop data ''data'' = Inr inner \<and>
          truthy inner \<and> truthy (optional_prop data ''timestamp'') \<and>
          (configured \<longrightarrow> fst (persist pf connect outcome now_iso data inner []) = Inr ()) \<and>
          \<not> list_ex to_string_throws (logged_values data inner) \<and>
          \<not> to_string_throws (optional_prop data ''timestamp'') \<and>
          toISOString pf (optional_prop data ''timestamp'') = Some printed
            \<longrightarrow> statusCode r = 200 \<and> response_body r = success_body data inner now_iso) \<and>
         (JSON_parse pf text = Some data \<and> get_prop data ''data'' = Inr inner \<and>
          truthy inner \<and> truthy (optional_prop data ''timestamp'') \<and>
          (configured \<longrightarrow> fst (persist pf connect outcome now_iso data inner []) = Inr ()) \<and>
          list_ex to_string_throws (logged_values data inner)
            \<longrightarrow> statusCode r = 500 \<and>
                response_body r =
                  Some (JObj [(''error'', JStr ''Internal server error''),
                              (''message'', JStr (error_message pf TypeError))])) \<and>
         (statusCode r = 200
            \<longrightarrow> has_key (response_body r) ''success'' \<and> has_key (response_body r) ''processed_at'' \<and>
                has_key (response_body r) ''stats'' \<and>
                (\<exists>parsed. JSON_parse pf text = Some parsed \<and>
                   has_key (response_body r) ''export_id'' =
                     (optional_prop parsed ''export_id'' \<noteq> JUndefined))) \<and>
         (fst (handler_try pf e connect outcome now_iso ev []) = Inl err
            \<longrightarrow> statusCode r = 500 \<and>
                response_body r =
                  Some (JObj [(''error'', JStr ''Internal server error''),
                              (''message'', JStr (error_message pf err))])) \<and>
         (JSON_parse pf text = None \<longrightarrow> statusCode r = 500) \<and>
         (statusCode r = 200 \<or> statusCode r = 400 \<or> statusCode r = 500))"
proof -
  let ?r = "fst (handler pf e connect outcome now_iso ev)"
  let ?text = "case body ev of None \<Rightarrow> ''null'' | Some s \<Rightarrow> s"
  let ?run = "handler_try pf e connect outcome now_iso ev []"
  have a: "httpMethod ev = ''OPTIONS'' \<longrightarrow> statusCode ?r = 200 \<and> response_body ?r = None"
    by (simp add: handler_options)
  have b: "httpMethod ev \<noteq> ''OPTIONS'' \<and> httpMethod ev \<noteq> ''POST'' \<longrightarrow> statusCode ?r = 405"
    by (simp add: handler_other_method)
  have c: "statusCode ?r = 400"
    if "httpMethod ev = ''POST''" "JSON_parse pf ?text = Some data" "get_prop data ''data'' = Inr inner"
      "\<not> truthy inner \<or> \<not> truthy (optional_prop data ''timestamp'')"
  proof -
    have "fst ?run = Inr \<lparr>statusCode = 400, headers = cors_headers,
        response_body = Some (JObj [(''error'', JStr ''Invalid data structure'')])\<rparr>"
      using that by (auto simp: handler_try_parsed[OF that(2)])
    from handler_returned[OF that(1) this] show ?thesis by simp
  qed
  have d: "statusCode ?r = 200 \<and> response_body ?r = success_body data inner now_iso"
    if "httpMethod ev = ''POST''" "JSON_parse pf ?text = Some data" "get_prop data ''data'' = Inr inner"
      "truthy inner" "truthy (optional_prop data ''timestamp'')"
      "is_set (supabaseUrl e) \<and> is_set (supabaseKey e)
         \<longrightarrow> fst (persist pf connect outcome now_iso data inner []) = Inr ()"
      "\<not> list_ex to_string_throws (logged_values data inner)"
      "\<not> to_string_throws (optional_prop data ''timestamp'')"
      "toISOString pf (optional_prop data ''timestamp'') = Some printed"
  proof -
    have "fst ?run = Inr \<lparr>statusCode = 200, headers = cors_headers,
        response_body = success_body data inner now_iso\<rparr>"
      using that(3-6)
      by (cases "persist pf connect outcome now_iso data inner []")
         (auto simp: handler_try_parsed[OF that(2)] log_line_completes[OF that(7,8,9)])
    from handler_returned[OF that(1) this] show ?thesis by simp
  qed
  have d': "statusCode ?r = 500 \<and>
      response_body ?r = Some (JObj [(''error'', JStr ''Internal server error''),
                                     (''message'', JStr (error_message pf TypeError))])"
    if "httpMethod ev = ''POST''" "JSON_parse pf ?text = Some data" "get_prop data ''data'' = Inr inner"
      "truthy inner" "truthy (optional_prop data ''timestamp'')"
      "is_set (supabaseUrl e) \<and> is_set (supabaseKey e)
         \<longrightarrow> fst (persist pf connect outcome now_iso data inner []) = Inr ()"
      "list_ex to_string_throws (logged_values data inner)"
  proof -
    have "fst ?run = Inl TypeError"
      using that(3-6)
      by (cases "persist pf connect outcome now_iso data inner []")
         (auto simp: handler_try_parsed[OF that(2)] log_line_throws[OF that(7)])
    from handler_exception[OF that(1) this] show ?thesis by simp
  qed
  have f: "statusCode ?r = 500 \<and>
      response_body ?r = Some (JObj [(''error'', JStr ''Internal server error''),
                                     (''message'', JStr (error_message pf err))])"
    if "httpMethod ev = ''POST''" "fst ?run = Inl err"
    using handler_exception[OF that] by simp
  have g: "statusCode ?r = 500" if "httpMethod ev = ''POST''" "JSON_parse pf ?text = None"
    using handler_exception[OF that(1), of pf e connect outcome now_iso SyntaxError]
      handler_try_parse_error[OF that(2)]
    by simp
  note shape = handler_try_shape[of pf e connect outcome now_iso ev]
  have h: "statusCode ?r = 200 \<or> statusCode ?r = 400 \<or> statusCode ?r = 500"
    if m: "httpMethod ev = ''POST''"
  proof (cases "fst ?run")
    case (Inl err)
    from handler_exception[OF m Inl] show ?thesis by simp
  next
    case (Inr ok)
    from handler_returned[OF m Inr] have "?r = ok" .
    moreover from shape Inr have "statusCode ok = 400 \<or> statusCode ok = 200" by auto
    ultimately show ?thesis by blast
  qed
  have k: "has_key (response_body ?r) ''success'' \<and> has_key (response_body ?r) ''processed_at'' \<and>
        has_key (response_body ?r) ''stats'' \<and>
        (\<exists>parsed. JSON_parse pf ?text = Some parsed \<and>
           has_key (response_body ?r) ''export_id'' =
             (optional_prop parsed ''export_id'' \<noteq> JUndefined))"
    if m: "httpMethod ev = ''POST''" and s: "statusCode ?r = 200"
  proof (cases "fst ?run")
    case (Inl err)
    from handler_exception[OF m Inl] s show ?thesis by simp
  next
    case (Inr ok)
    from handler_returned[OF m Inr] have ok: "?r = ok" .
    with s have "statusCode ok = 200" by simp
    with shape Inr obtain data inner where p: "JSON_parse pf ?text = Some data"
      and r: "ok = \<lparr>statusCode = 200, headers = cors_headers,
             response_body = success_body data inner now_iso\<rparr>"
      by auto
    have "response_body ?r = success_body data inner now_iso" using ok r by simp
    then show ?thesis using p success_body_keys[of data inner now_iso] by auto
  qed
  show ?thesis
    unfolding Let_def
  proof (intro conjI impI)
    show "statusCode ?r = 200" if "httpMethod ev = ''OPTIONS''" using a that by simp
    show "response_body ?r = None" if "httpMethod ev = ''OPTIONS''" using a that by simp
    show "statusCode ?r = 405" if "httpMethod ev \<noteq> ''OPTIONS'' \<and> httpMethod ev \<noteq> ''POST''"
      using b that by simp
    show "statusCode ?r = 400"
      if "httpMethod ev = ''POST''"
        "JSON_parse pf ?text = Some data \<and> get_prop data ''data'' = Inr inner \<and>
         (\<not> truthy inner \<or> \<not> truthy (optional_prop data ''timestamp''))"
      using c[OF that(1)] that(2) by blast
    show "statusCode ?r = 200"
      if "httpMethod ev = ''POST''"
        "JSON_parse pf ?text = Some data \<and> get_prop data ''data'' = Inr inner \<and>
         truthy inner \<and> truthy (optional_prop data ''timestamp'') \<and>
         (is_set (supabaseUrl e) \<and> is_set (supabaseKey e)
            \<longrightarrow> fst (persist pf connect outcome now_iso data inner []) = Inr ()) \<and>
         \<not> list_ex to_string_throws (logged_values data inner) \<and>
         \<not> to_string_throws (optional_prop data ''timestamp'') \<and>
         toISOString pf (optional_prop data ''timestamp'') = Some printed"
      using d[OF that(1)] that(2) by blast
    show "response_body ?r = success_body data inner now_iso"
      if "httpMethod ev = ''POST''"
        "JSON_parse pf ?text = Some data \<and> get_prop data ''data'' = Inr inner \<and>
         truthy inner \<and> truthy (optional_prop data ''timestamp'') \<and>
         (is_set (supabaseUrl e) \<and> is_set (supabaseKey e)
            \<longrightarrow> fst (persist pf connect outcome now_iso data inner []) = Inr ()) \<and>
         \<not> list_ex to_string_throws (logged_values data inner) \<and>
         \<not> to_string_throws (optional_prop data ''timestamp'') \<and>
         toISOString pf (optional_prop data ''timestamp'') = Some printed"
      using d[OF that(1)] that(2) by blast
    show "statusCode ?r = 500"
      if "httpMethod ev = ''POST''"
        "JSON_parse pf ?text = Some data \<and> get_prop data ''data'' = Inr inner \<and>
         truthy inner \<and> truthy (optional_prop data ''timestamp'') \<and>
         (is_set (supabaseUrl e) \<and> is_set (supabaseKey e)
            \<longrightarrow> fst (persist pf connect outcome now_iso data inner []) = Inr ()) \<and>
         list_ex to_string_throws (logged_values data inner)"
      using d'[OF that(1)] that(2) by blast
    show "response_body ?r = Some (JObj [(''error'', JStr ''Internal server error''),
                                     (''message'', JStr (error_message pf TypeError))])"
      if "httpMethod ev = ''POST''"
        "JSON_parse pf ?text = Some data \<and> get_prop data ''data'' = Inr inner \<and>
         truthy inner \<and> truthy (optional_prop data ''timestamp'') \<and>
         (is_set (supabaseUrl e) \<and> is_set (supabaseKey e)
            \<longrightarrow> fst (persist pf connect outcome now_iso data inner []) = Inr ()) \<and>
         list_ex to_string_throws (logged_values data inner)"
      using d'[OF that(1)] that(2) by blast
    show "has_key (response_body ?r) ''success''"
      if "httpMethod ev = ''POST''" "statusCode ?r = 200" using k[OF that] by simp
    show "has_key (response_body ?r) ''processed_at''"
      if "httpMethod ev = ''POST''" "statusCode ?r = 200" using k[OF that] by simp
    show "has_key (response_body ?r) ''stats''"
      if "httpMethod ev = ''POST''" "statusCode ?r = 200" using k[OF that] by simp
    show "\<exists>parsed. JSON_parse pf ?text = Some parsed \<and>
           has_key (response_body ?r) ''export_id'' =
             (optional_prop parsed ''export_id'' \<noteq> JUndefined)"
      if "httpMethod ev = ''POST''" "statusCode ?r = 200" using k[OF that] by simp
    show "statusCode ?r = 500"
      if "httpMethod ev = ''POST''" "fst ?run = Inl err" using f[OF that] by simp
    show "response_body ?r = Some (JObj [(''error'', JStr ''Internal server error''),
                                     (''message'', JStr (error_message pf err))])"
      if "httpMethod ev = ''POST''" "fst ?run = Inl err" using f[OF that] by simp
    show "statusCode ?r = 500"
      if "httpMethod ev = ''POST''" "JSON_parse pf ?text = None" using g[OF that] .
    show "statusCode ?r = 200 \<or> statusCode ?r = 400 \<or> statusCode ?r = 500"
      if "httpMethod ev = ''POST''" using h[OF that] .
  qed
qed


text \<open>
  Claim C7 as stated fails in its first part: \<^verbatim>\<open>OPTIONS\<close> is not \<^verbatim>\<open>POST\<close>, and the
  handler answers it with 200 before it tests for \<^verbatim>\<open>POST\<close>. The second part needs a
  parsed body other than \<^verbatim>\<open>null\<close>: the body \<^verbatim>\<open>null\<close> is JSON and has no \<^verbatim>\<open>data\<close>
  field, yet reading the field throws and the status is 500, not 400.
\<close>

theorem options_request_counterexample:
  "httpMethod (request ''OPTIONS'' None) \<noteq> ''POST'' \<and>
   statusCode (sample_handler (request ''OPTIONS'' None)) = 200 \<and>
   response_body (sample_handler (request ''OPTIONS'' None)) = None \<and>
   JSON_parse sample_platform ''null'' = Some JNull \<and>
   statusCode (sample_handler (request ''POST'' (Some ''null''))) = 500"
proof -
  have "fst (handler_try sample_platform no_database None (\<lambda>n. None) ''2023-11-14T22:13:21.000Z''
          (request ''POST'' (Some ''null'')) []) = Inl TypeError"
    by (simp add: handler_try_def act_bind_pure request_def sample_parse_facts)
  from handler_exception[OF _ this]
  have "statusCode (sample_handler (request ''POST'' (Some ''null''))) = 500"
    by (simp add: sample_handler_def request_def)
  then show ?thesis
    by (simp add: sample_handler_def request_def handler_def sample_parse_facts)
qed

lemma sample_request_facts:
  "JSON_parse sample_platform request_text = Some request_value"
  "JSON_parse sample_platform ''{\"data\":{\"game_sessions\":[]}}'' =
     Some (JObj [(''data'', JObj [(''game_sessions'', JArr [])])])"
  "JSON_parse sample_platform
     ''{\"data\":{\"game_sessions\":[]},\"timestamp\":1700000000000,\"export_id\":{\"toString\":null}}'' =
     Some (JObj [(''data'', JObj [(''game_sessions'', JArr [])]),
                 (''timestamp'', JNum 1700000000000),
                 (''export_id'', JObj [(''toString'', JNull)])])"
  by (simp_all add: sample_platform_def sample_json_def request_text_def)

theorem handler_responses_witness:
  "statusCode (sample_handler (request ''GET'' None)) = 405 \<and>
   statusCode (sample_handler (request ''POST'' (Some ''{\"data\":{\"game_sessions\":[]}}''))) = 400 \<and>
   statusCode (sample_handler (request ''POST'' (Some ''{oops''))) = 500 \<and>
   statusCode (sample_handler (request ''POST''
     (Some ''{\"data\":{\"game_sessions\":[]},\"timestamp\":1700000000000,\"export_id\":{\"toString\":null}}'')))
     = 500 \<and>
   statusCode (sample_handler (request ''POST'' (Some request_text))) = 200 \<and>
   response_body (sample_handler (request ''POST'' (Some request_text))) =
     Some (JObj [(''success'', JBool True), (''message'', JStr ''Data received successfully''),
                 (''export_id'', JStr ''export_1700000000000_ab12cd34e''),
                 (''processed_at'', JStr ''2023-11-14T22:13:21.000Z''),
                 (''stats'', JObj [(''sessions'', JNum 0), (''decisions'', JNum 0),
                                   (''shares'', JNum 0)])])"
proof -
  note t = handler_responses[where pf = sample_platform and e = no_database and connect = None
      and outcome = "\<lambda>n. None" and now_iso = "''2023-11-14T22:13:21.000Z''", unfolded Let_def,
      folded sample_handler_def]
  have 1: "statusCode (sample_handler (request ''GET'' None)) = 405"
    using t[where ev = "request ''GET'' None", THEN conjunct2, THEN conjunct1]
    by (simp add: request_def)
  let ?bad = "request ''POST'' (Some ''{\"data\":{\"game_sessions\":[]}}'')"
  have 2: "statusCode (sample_handler ?bad) = 400"
    using t[where ev = ?bad and data = "JObj [(''data'', JObj [(''game_sessions'', JArr [])])]"
        and inner = "JObj [(''game_sessions'', JArr [])]",
        THEN conjunct2, THEN conjunct2, THEN mp, THEN conjunct1]
    by (simp add: request_def sample_request_facts optional_prop_def)
  let ?broken = "request ''POST'' (Some ''{oops'')"
  have 3: "statusCode (sample_handler ?broken) = 500"
    using t[where ev = ?broken, THEN conjunct2, THEN conjunct2, THEN mp,
        THEN conjunct2, THEN conjunct2, THEN conjunct2, THEN conjunct2, THEN conjunct2,
        THEN conjunct1]
    by (simp add: request_def sample_parse_facts)
  let ?good = "request ''POST'' (Some request_text)"
  have i: "get_prop request_value ''data'' =
      Inr (JObj [(''game_sessions'', JArr []), (''leaderboard'', JArr []),
                   (''viral_analytics'',
                     JObj [(''share_events'', JArr []), (''page_visits'', JArr []),
                           (''referrals'', JArr [])]),
                   (''cultural_insights'', JObj []),
                   (''aggregated_stats'', JObj [(''total_decisions'', JNum 0)])])"
    by (simp add: request_value_def)
  have ts: "optional_prop request_value ''timestamp'' = JNum 1700000000000"
    by (simp add: request_value_def optional_prop_def)
  have 4: "statusCode (sample_handler ?good) = 200 \<and>
      response_body (sample_handler ?good) =
        success_body request_value
          (JObj [(''game_sessions'', JArr []), (''leaderboard'', JArr []),
                   (''viral_analytics'',
                     JObj [(''share_events'', JArr []), (''page_visits'', JArr []),
                           (''referrals'', JArr [])]),
                   (''cultural_insights'', JObj []),
                   (''aggregated_stats'', JObj [(''total_decisions'', JNum 0)])])
          ''2023-11-14T22:13:21.000Z''"
    using t[where ev = ?good and data = request_value and printed = "''2023-11-14T22:13:20.000Z''",
        THEN conjunct2, THEN conjunct2, THEN mp, THEN conjunct2, THEN conjunct1, THEN mp]
    by (simp add: request_def sample_request_facts i ts sample_platform_facts(3)
        no_database_def is_set_def logged_values_def js_or_def optional_prop_def
        request_value_def)
  let ?odd = "request ''POST''
      (Some ''{\"data\":{\"game_sessions\":[]},\"timestamp\":1700000000000,\"export_id\":{\"toString\":null}}'')"
  have 5: "statusCode (sample_handler ?odd) = 500"
    using t[where ev = ?odd
        and data = "JObj [(''data'', JObj [(''game_sessions'', JArr [])]),
                          (''timestamp'', JNum 1700000000000),
                          (''export_id'', JObj [(''toString'', JNull)])]"
        and inner = "JObj [(''game_sessions'', JArr [])]",
        THEN conjunct2, THEN conjunct2, THEN mp, THEN conjunct2, THEN conjunct2, THEN conjunct1,
        THEN mp, THEN conjunct1]
    by (simp add: request_def sample_request_facts no_database_def is_set_def logged_values_def
        js_or_def optional_prop_def)
  have b: "success_body request_value
          (JObj [(''game_sessions'', JArr []), (''leaderboard'', JArr []),
                   (''viral_analytics'',
                     JObj [(''share_events'', JArr []), (''page_visits'', JArr []),
                           (''referrals'', JArr [])]),
                   (''cultural_insights'', JObj []),
                   (''aggregated_stats'', JObj [(''total_decisions'', JNum 0)])])
          ''2023-11-14T22:13:21.000Z'' =
     Some (JObj [(''success'', JBool True), (''message'', JStr ''Data received successfully''),
                 (''export_id'', JStr ''export_1700000000000_ab12cd34e''),
                 (''processed_at'', JStr ''2023-11-14T22:13:21.000Z''),
                 (''stats'', JObj [(''sessions'', JNum 0), (''decisions'', JNum 0),
                                   (''shares'', JNum 0)])])"
    by (simp add: success_body_def stringify_object_def optional_prop_def js_or_def
        request_value_def)
  show ?thesis using 1 2 3 4 5 b by simp
qed


end
